theory Spec2Isabelle
  imports Main "HOL-Library.Monad_Syntax" "HOL-Library.Word"
begin

unbundle bit_operations_syntax

section \<open>The pod admission webhook of LeaderWorkerSet\<close>

text \<open>
  A shallow embedding of the pod webhook (package \<open>webhooks\<close>): \<open>validate\<close>,
  \<open>ValidateCreate\<close>, \<open>ValidateUpdate\<close>, \<open>ValidateDelete\<close>, \<open>Default\<close>,
  \<open>genGroupUniqueKey\<close>, \<open>SetExclusiveAffinities\<close> and \<open>exclusiveAffinityApplied\<close>.

  A Go pointer that may be nil is an \<open>option\<close>; a Go map is a partial function, and
  reading an absent key gives the zero value (the empty string), as in Go; a Go slice is a
  list, the nil slice being the empty list. The pod is mutated in place by the source, so
  the functions return the pod they leave behind, next to the error they return.
\<close>

subsection \<open>The fragment of the Kubernetes pod types the webhook touches\<close>

datatype LabelSelectorOperator =
  LabelSelectorOpIn | LabelSelectorOpNotIn | LabelSelectorOpExists | LabelSelectorOpDoesNotExist

record LabelSelectorRequirement =
  Key :: string
  Operator :: LabelSelectorOperator
  Values :: "string list"

record LabelSelector =
  MatchLabels :: "(string \<times> string) list"
  MatchExpressions :: "LabelSelectorRequirement list"

record PodAffinityTerm =
  LabelSelector :: "LabelSelector option"
  Namespaces :: "string list"
  TopologyKey :: string

record WeightedPodAffinityTerm =
  Weight :: int
  PodAffinityTerm :: PodAffinityTerm

record PodAffinity =
  RequiredDuringSchedulingIgnoredDuringExecution :: "PodAffinityTerm list"
  PreferredDuringSchedulingIgnoredDuringExecution :: "WeightedPodAffinityTerm list"

record PodAntiAffinity =
  RequiredDuringSchedulingIgnoredDuringExecution :: "PodAffinityTerm list"
  PreferredDuringSchedulingIgnoredDuringExecution :: "WeightedPodAffinityTerm list"

typedecl NodeAffinity

record Affinity =
  NodeAffinity :: "NodeAffinity option"
  PodAffinity :: "PodAffinity option"
  PodAntiAffinity :: "PodAntiAffinity option"

record EnvVar =
  Name :: string
  Value :: string

record ResourceRequirements =
  Limits :: "string \<rightharpoonup> string"
  Requests :: "string \<rightharpoonup> string"

record Container =
  Name :: string
  Env :: "EnvVar list"
  Resources :: ResourceRequirements

record PodSpec =
  InitContainers :: "Container list"
  Containers :: "Container list"
  Affinity :: "Affinity option"

record Pod =
  Name :: string
  Namespace :: string
  Labels :: "string \<rightharpoonup> string"
  Annotations :: "string \<rightharpoonup> string"
  Spec :: PodSpec

text \<open>
  A \<open>runtime.Object\<close> handed to the webhook is a pod, or something else, of which only
  the name of its dynamic type is used (the \<open>%T\<close> of the error message).
\<close>

datatype Object = PodObject Pod | OtherObject string

text \<open>Reading a Go map of strings: the zero value for an absent key.\<close>

definition index :: "(string \<rightharpoonup> string) \<Rightarrow> string \<Rightarrow> string" where
  "index m k = (case m k of None \<Rightarrow> [] | Some v \<Rightarrow> v)"

subsection \<open>Errors\<close>

text \<open>
  The errors \<open>Default\<close> and \<open>validate\<close> return, one constructor for each
  \<open>fmt.Errorf\<close> of the source and for the errors of the calls whose error is passed on;
  \<open>NilPointerDereference\<close> is the runtime panic of dereferencing a nil pointer.
\<close>

datatype error =
  ExpectedPod string
  | ParsingPodOrdinal string
  | SizeAnnotationMissing string
  | AtoiSyntax string
  | AtoiRange string
  | TPUVariablesError string
  | NilPointerDereference

subsection \<open>The Go standard library: \<open>fmt.Sprint\<close> of an int, \<open>strconv.Atoi\<close>\<close>

definition isDigit :: "char \<Rightarrow> bool" where
  "isDigit c = (c \<in> set ''0123456789'')"

definition digitVal :: "char \<Rightarrow> nat" where
  "digitVal c = of_char c - 48"

definition digitChar :: "nat \<Rightarrow> char" where
  "digitChar n = ''0123456789'' ! n"

fun showNat :: "nat \<Rightarrow> string" where
  "showNat n = (if n < 10 then [digitChar n] else showNat (n div 10) @ [digitChar (n mod 10)])"

declare showNat.simps [simp del]

definition parseNat :: "string \<Rightarrow> nat" where
  "parseNat ds = foldl (\<lambda>acc c. 10 * acc + digitVal c) 0 ds"

text \<open>\<open>fmt.Sprint(i)\<close> for an int: the decimal digits, after a minus sign when negative.\<close>

definition Sprint :: "int \<Rightarrow> string" where
  "Sprint i = (if i < 0 then CHR ''-'' # showNat (nat (- i)) else showNat (nat i))"

text \<open>
  \<open>strconv.Atoi\<close>: an optional sign, then at least one decimal digit and nothing else.
  The digits are read from the left into an unsigned 64-bit number: a character that is
  not a digit is the syntax error, a number that no longer fits is the range error,
  whichever comes first. The signed value must then fit the 64-bit int. The error names
  the whole string.
\<close>

fun scanDigits :: "string \<Rightarrow> nat \<Rightarrow> string \<Rightarrow> error + nat" where
  "scanDigits s0 n [] = Inr n"
| "scanDigits s0 n (c # cs) =
     (if \<not> isDigit c then Inl (AtoiSyntax s0)
      else if 2 ^ 64 div 10 + 1 \<le> n then Inl (AtoiRange s0)
      else if 2 ^ 64 - 1 < n * 10 + digitVal c then Inl (AtoiRange s0)
      else scanDigits s0 (n * 10 + digitVal c) cs)"

definition Atoi :: "string \<Rightarrow> error + int" where
  "Atoi s =
     (let (neg, ds) =
        (case s of
           c # r \<Rightarrow> if c = CHR ''+'' then (False, r) else if c = CHR ''-'' then (True, r) else (False, s)
         | [] \<Rightarrow> (False, s))
      in if ds = [] then Inl (AtoiSyntax s)
         else (case scanDigits s 0 ds of
                 Inl err \<Rightarrow> Inl err
               | Inr un \<Rightarrow>
                   if \<not> neg \<and> 2 ^ 63 \<le> un then Inl (AtoiRange s)
                   else if neg \<and> 2 ^ 63 < un then Inl (AtoiRange s)
                   else Inr (if neg then - int un else int un)))"

subsection \<open>What the webhook uses of the rest of the repository\<close>

text \<open>
  The label and annotation keys of package \<open>leaderworkerset\<close> and the helpers of the
  packages \<open>utils\<close>, \<open>podutils\<close>, \<open>statefulsetutils\<close> and \<open>acceleratorutils\<close> are
  used by the webhook and declared elsewhere. The webhook is modelled over any such keys
  and helpers: they are the fields of a record that every function takes first.
  \<open>AddTPUVariables\<close> mutates the pod it is given and returns an error, so here it returns
  both.
\<close>

record deps =
  SetNameLabelKey :: string
  GroupIndexLabelKey :: string
  WorkerIndexLabelKey :: string
  GroupUniqueHashLabelKey :: string
  ExclusiveKeyAnnotationKey :: string
  SizeAnnotationKey :: string
  LeaderPod :: "Pod \<Rightarrow> bool"
  GetParentNameAndOrdinal :: "string \<Rightarrow> string \<times> int"
  Sha1Hash :: "string \<Rightarrow> string"
  PodRequestsTPUs :: "PodSpec \<Rightarrow> bool"
  AddTPUVariables :: "Pod \<Rightarrow> int \<Rightarrow> error option \<times> Pod"

subsection \<open>The validating webhook\<close>

text \<open>The warnings are always nil: \<open>None\<close>.\<close>

type_synonym Warnings = "string list option"

definition validate :: "deps \<Rightarrow> Object \<Rightarrow> Warnings \<times> error option" where
  "validate d obj =
     (case obj of
        OtherObject t \<Rightarrow> (None, Some (ExpectedPod t))
      | PodObject pod \<Rightarrow>
          if Labels pod (SetNameLabelKey d) = None then (None, None)
          else (None, None))"

definition ValidateCreate :: "deps \<Rightarrow> Object \<Rightarrow> Warnings \<times> error option" where
  "ValidateCreate d obj = validate d obj"

definition ValidateUpdate :: "deps \<Rightarrow> Object \<Rightarrow> Object \<Rightarrow> Warnings \<times> error option" where
  "ValidateUpdate d oldObj newObj = (None, None)"

definition ValidateDelete :: "deps \<Rightarrow> Object \<Rightarrow> Warnings \<times> error option" where
  "ValidateDelete d obj = (None, None)"

subsection \<open>Exclusive placement\<close>

definition genGroupUniqueKey :: "deps \<Rightarrow> string \<Rightarrow> string \<Rightarrow> string" where
  "genGroupUniqueKey d ns podName = Sha1Hash d (ns @ ''/'' @ podName)"

text \<open>The assignment \<open>pod.Spec.Affinity = a\<close>, for a pointer \<open>a\<close> that is not nil.\<close>

definition setAffinity :: "Pod \<Rightarrow> Affinity \<Rightarrow> Pod" where
  "setAffinity pod a = pod\<lparr>Spec := (Spec pod)\<lparr>Affinity := Some a\<rparr>\<rparr>"

text \<open>The two terms that \<open>SetExclusiveAffinities\<close> appends.\<close>

definition affinityTerm :: "deps \<Rightarrow> Pod \<Rightarrow> string \<Rightarrow> PodAffinityTerm" where
  "affinityTerm d pod groupUniqueKey =
     \<lparr>LabelSelector = Some \<lparr>MatchLabels = [], MatchExpressions =
        [\<lparr>Key = GroupUniqueHashLabelKey d, Operator = LabelSelectorOpIn,
          Values = [groupUniqueKey]\<rparr>]\<rparr>,
      Namespaces = [],
      TopologyKey = index (Annotations pod) (ExclusiveKeyAnnotationKey d)\<rparr>"

definition antiAffinityTerm :: "deps \<Rightarrow> Pod \<Rightarrow> string \<Rightarrow> PodAffinityTerm" where
  "antiAffinityTerm d pod groupUniqueKey =
     \<lparr>LabelSelector = Some \<lparr>MatchLabels = [], MatchExpressions =
        [\<lparr>Key = GroupUniqueHashLabelKey d, Operator = LabelSelectorOpExists, Values = []\<rparr>,
         \<lparr>Key = GroupUniqueHashLabelKey d, Operator = LabelSelectorOpNotIn,
          Values = [groupUniqueKey]\<rparr>]\<rparr>,
      Namespaces = [],
      TopologyKey = index (Annotations pod) (ExclusiveKeyAnnotationKey d)\<rparr>"

text \<open>
  \<open>SetExclusiveAffinities\<close>, in the option monad: every dereference of
  \<open>pod.Spec.Affinity\<close>, of its \<open>PodAffinity\<close> and of its \<open>PodAntiAffinity\<close> is a bind
  that fails (the nil-pointer panic) when the pointer is nil.
\<close>

definition SetExclusiveAffinities :: "deps \<Rightarrow> Pod \<Rightarrow> string \<Rightarrow> Pod option" where
  "SetExclusiveAffinities d pod groupUniqueKey = do {
     let pod = (if Affinity (Spec pod) = None
                then setAffinity pod \<lparr>NodeAffinity = None, PodAffinity = None, PodAntiAffinity = None\<rparr>
                else pod);
     a \<leftarrow> Affinity (Spec pod);
     let pod = (if PodAffinity a = None
                then setAffinity pod (a\<lparr>PodAffinity := Some
                  \<lparr>PodAffinity.RequiredDuringSchedulingIgnoredDuringExecution = [],
                   PodAffinity.PreferredDuringSchedulingIgnoredDuringExecution = []\<rparr>\<rparr>)
                else pod);
     a \<leftarrow> Affinity (Spec pod);
     let pod = (if PodAntiAffinity a = None
                then setAffinity pod (a\<lparr>PodAntiAffinity := Some
                  \<lparr>PodAntiAffinity.RequiredDuringSchedulingIgnoredDuringExecution = [],
                   PodAntiAffinity.PreferredDuringSchedulingIgnoredDuringExecution = []\<rparr>\<rparr>)
                else pod);
     a \<leftarrow> Affinity (Spec pod);
     pa \<leftarrow> PodAffinity a;
     let pod = setAffinity pod (a\<lparr>PodAffinity := Some
       (pa\<lparr>PodAffinity.RequiredDuringSchedulingIgnoredDuringExecution :=
          PodAffinity.RequiredDuringSchedulingIgnoredDuringExecution pa
            @ [affinityTerm d pod groupUniqueKey]\<rparr>)\<rparr>);
     a \<leftarrow> Affinity (Spec pod);
     paa \<leftarrow> PodAntiAffinity a;
     let pod = setAffinity pod (a\<lparr>PodAntiAffinity := Some
       (paa\<lparr>PodAntiAffinity.RequiredDuringSchedulingIgnoredDuringExecution :=
          PodAntiAffinity.RequiredDuringSchedulingIgnoredDuringExecution paa
            @ [antiAffinityTerm d pod groupUniqueKey]\<rparr>)\<rparr>);
     Some pod
   }"

text \<open>
  The two loops of \<open>exclusiveAffinityApplied\<close>: the flag becomes true at every term scoped
  to the topology key and is never reset.
\<close>

fun scanTerms :: "string \<Rightarrow> PodAffinityTerm list \<Rightarrow> bool \<Rightarrow> bool" where
  "scanTerms topologyKey [] has = has"
| "scanTerms topologyKey (t # ts) has =
     scanTerms topologyKey ts (if TopologyKey t = topologyKey then True else has)"

text \<open>
  The guard of the first line returns false when one of the three pointers is nil (the
  \<open>||\<close> of Go evaluates its right operand only when the left one is false); the loops
  run in the branch where none is.
\<close>

definition exclusiveAffinityApplied :: "deps \<Rightarrow> Pod \<Rightarrow> bool" where
  "exclusiveAffinityApplied d pod =
     (case Affinity (Spec pod) of
        None \<Rightarrow> False
      | Some a \<Rightarrow>
          (case PodAffinity a of
             None \<Rightarrow> False
           | Some pa \<Rightarrow>
               (case PodAntiAffinity a of
                  None \<Rightarrow> False
                | Some paa \<Rightarrow>
                    (let hasAffinity = scanTerms (index (Annotations pod) (ExclusiveKeyAnnotationKey d))
                           (PodAffinity.RequiredDuringSchedulingIgnoredDuringExecution pa) False;
                         hasAntiAffinity = scanTerms (index (Annotations pod) (ExclusiveKeyAnnotationKey d))
                           (PodAntiAffinity.RequiredDuringSchedulingIgnoredDuringExecution paa) False
                     in hasAffinity \<and> hasAntiAffinity))))"

subsection \<open>The mutating webhook\<close>

text \<open>
  \<open>Default\<close> is modelled block by block, in the order of the source. Each block takes the
  pod as the blocks before it left it and returns the error it returns (\<open>None\<close> when it
  goes on or returns nil) with the pod as it leaves it. A write to \<open>pod.Labels\<close> happens
  only after the group-membership label was found, so the map is not nil there.
\<close>

text \<open>The leader's first block: the group index label.\<close>

definition addGroupIndexLabel :: "deps \<Rightarrow> Pod \<Rightarrow> error option \<times> Pod" where
  "addGroupIndexLabel d pod =
     (if Labels pod (GroupIndexLabelKey d) = None then
        (let groupIndex = snd (GetParentNameAndOrdinal d (Pod.Name pod)) in
         if groupIndex = - 1 then (Some (ParsingPodOrdinal (Pod.Name pod)), pod)
         else (None, pod\<lparr>Labels := (Labels pod)(GroupIndexLabelKey d \<mapsto> Sprint groupIndex)\<rparr>))
      else (None, pod))"

text \<open>The leader's second block: the group unique key, returned with the pod.\<close>

definition addGroupUniqueKeyLabel :: "deps \<Rightarrow> Pod \<Rightarrow> string \<times> Pod" where
  "addGroupUniqueKeyLabel d pod =
     (if Labels pod (GroupUniqueHashLabelKey d) = None then
        (let groupUniqueKey = genGroupUniqueKey d (Namespace pod) (Pod.Name pod) in
         (groupUniqueKey,
          pod\<lparr>Labels := (Labels pod)(GroupUniqueHashLabelKey d \<mapsto> groupUniqueKey)\<rparr>))
      else (index (Labels pod) (GroupUniqueHashLabelKey d), pod))"

text \<open>The leader's third block: exclusive placement, when annotated and not yet applied.\<close>

definition applyExclusivePlacement :: "deps \<Rightarrow> Pod \<Rightarrow> string \<Rightarrow> error option \<times> Pod" where
  "applyExclusivePlacement d pod groupUniqueKey =
     (if Annotations pod (ExclusiveKeyAnnotationKey d) \<noteq> None \<and> \<not> exclusiveAffinityApplied d pod then
        (case SetExclusiveAffinities d pod groupUniqueKey of
           None \<Rightarrow> (Some NilPointerDereference, pod)
         | Some pod' \<Rightarrow> (None, pod'))
      else (None, pod))"

definition defaultLeader :: "deps \<Rightarrow> Pod \<Rightarrow> error option \<times> Pod" where
  "defaultLeader d pod =
     (case addGroupIndexLabel d pod of
        (Some err, pod) \<Rightarrow> (Some err, pod)
      | (None, pod) \<Rightarrow>
          (case addGroupUniqueKeyLabel d pod of
             (groupUniqueKey, pod) \<Rightarrow> applyExclusivePlacement d pod groupUniqueKey))"

text \<open>The worker's block: the worker index label.\<close>

definition defaultWorker :: "deps \<Rightarrow> Pod \<Rightarrow> error option \<times> Pod" where
  "defaultWorker d pod =
     (let workerIndex = snd (GetParentNameAndOrdinal d (Pod.Name pod)) in
      if workerIndex = - 1 then (Some (ParsingPodOrdinal (Pod.Name pod)), pod)
      else (None, pod\<lparr>Labels := (Labels pod)(WorkerIndexLabelKey d \<mapsto> Sprint workerIndex)\<rparr>))"

text \<open>The last block: the environment variables of the accelerator.\<close>

definition injectEnvVars :: "deps \<Rightarrow> Pod \<Rightarrow> error option \<times> Pod" where
  "injectEnvVars d pod =
     (if PodRequestsTPUs d (Spec pod) then
        (case Annotations pod (SizeAnnotationKey d) of
           None \<Rightarrow> (Some (SizeAnnotationMissing (Pod.Name pod)), pod)
         | Some size' \<Rightarrow>
             (case Atoi size' of
                Inl err \<Rightarrow> (Some err, pod)
              | Inr podCount \<Rightarrow> AddTPUVariables d pod podCount))
      else (None, pod))"

definition Default :: "deps \<Rightarrow> Object \<Rightarrow> error option \<times> Object" where
  "Default d obj =
     (case obj of
        OtherObject t \<Rightarrow> (Some (ExpectedPod t), obj)
      | PodObject pod \<Rightarrow>
          if Labels pod (SetNameLabelKey d) = None then (None, PodObject pod)
          else
            (case (if LeaderPod d pod then defaultLeader d pod else defaultWorker d pod) of
               (Some err, pod) \<Rightarrow> (Some err, PodObject pod)
             | (None, pod) \<Rightarrow>
                 (case injectEnvVars d pod of (err, pod) \<Rightarrow> (err, PodObject pod))))"

subsection \<open>Reading the result: the required terms of a pod, and what a term selects\<close>

text \<open>The required affinity and anti-affinity terms of a pod; none when a pointer is nil.\<close>

definition requiredAffinityTerms :: "Pod \<Rightarrow> PodAffinityTerm list" where
  "requiredAffinityTerms pod =
     (case Affinity (Spec pod) of
        None \<Rightarrow> []
      | Some a \<Rightarrow>
          (case PodAffinity a of
             None \<Rightarrow> []
           | Some pa \<Rightarrow> PodAffinity.RequiredDuringSchedulingIgnoredDuringExecution pa))"

definition requiredAntiAffinityTerms :: "Pod \<Rightarrow> PodAffinityTerm list" where
  "requiredAntiAffinityTerms pod =
     (case Affinity (Spec pod) of
        None \<Rightarrow> []
      | Some a \<Rightarrow>
          (case PodAntiAffinity a of
             None \<Rightarrow> []
           | Some paa \<Rightarrow> PodAntiAffinity.RequiredDuringSchedulingIgnoredDuringExecution paa))"

definition scopedTo :: "string \<Rightarrow> PodAffinityTerm list \<Rightarrow> PodAffinityTerm list" where
  "scopedTo topologyKey ts = filter (\<lambda>t. TopologyKey t = topologyKey) ts"

text \<open>
  The meaning Kubernetes gives a label selector, which the scheduler applies to the labels
  of the other pods: \<open>In\<close> wants the label present with one of the values, \<open>NotIn\<close>
  wants it absent or with none of the values, \<open>Exists\<close> and \<open>DoesNotExist\<close> want it
  present and absent; the requirements and the \<open>matchLabels\<close> pairs of a selector are
  conjoined, and the nil selector of a pod affinity term selects no pod.
\<close>

definition requirementMatches :: "LabelSelectorRequirement \<Rightarrow> (string \<rightharpoonup> string) \<Rightarrow> bool" where
  "requirementMatches r labels =
     (case Operator r of
        LabelSelectorOpIn \<Rightarrow> (case labels (Key r) of None \<Rightarrow> False | Some v \<Rightarrow> v \<in> set (Values r))
      | LabelSelectorOpNotIn \<Rightarrow> (case labels (Key r) of None \<Rightarrow> True | Some v \<Rightarrow> v \<notin> set (Values r))
      | LabelSelectorOpExists \<Rightarrow> labels (Key r) \<noteq> None
      | LabelSelectorOpDoesNotExist \<Rightarrow> labels (Key r) = None)"

definition selectorMatches :: "LabelSelector \<Rightarrow> (string \<rightharpoonup> string) \<Rightarrow> bool" where
  "selectorMatches sel labels =
     (list_all (\<lambda>(k, v). labels k = Some v) (MatchLabels sel)
      \<and> list_all (\<lambda>r. requirementMatches r labels) (MatchExpressions sel))"

definition termSelects :: "PodAffinityTerm \<Rightarrow> (string \<rightharpoonup> string) \<Rightarrow> bool" where
  "termSelects t labels =
     (case LabelSelector t of None \<Rightarrow> False | Some sel \<Rightarrow> selectorMatches sel labels)"

subsection \<open>What is assumed of the helpers\<close>

text \<open>
  Whether a pod requests the accelerator is a matter of its containers: two pod specs
  with the same containers and init containers get the same answer.
\<close>

definition requestsOfContainers :: "deps \<Rightarrow> bool" where
  "requestsOfContainers d =
     (\<forall>s s'. Containers s = Containers s' \<and> InitContainers s = InitContainers s'
        \<longrightarrow> PodRequestsTPUs d s = PodRequestsTPUs d s')"

text \<open>\<open>AddTPUVariables\<close> changes nothing of the pod but its containers.\<close>

definition variablesOnly :: "deps \<Rightarrow> bool" where
  "variablesOnly d =
     (\<forall>pod podCount. \<exists>cs ics.
        snd (AddTPUVariables d pod podCount)
          = pod\<lparr>Spec := (Spec pod)\<lparr>InitContainers := ics, Containers := cs\<rparr>\<rparr>)"

subsection \<open>The helpers, modelled\<close>

text \<open>
  Modelled from the spec: \<open>GetParentNameAndOrdinal\<close> of package \<open>statefulsetutils\<close> is not
  among the sources. The spec: the input is a pod name \<open><parent>-<ordinal>\<close>, the output
  the integer ordinal, or a not-found failure if the name does not parse as
  \<open><prefix>-<non-negative integer>\<close>. The failure is the ordinal \<open>-1\<close> that \<open>Default\<close>
  tests for, with the empty parent. The integer is what follows the last dash: one decimal
  digit at least, and digits only.
\<close>

definition specGetParentNameAndOrdinal :: "string \<Rightarrow> string \<times> int" where
  "specGetParentNameAndOrdinal podName =
     (let suffix = rev (takeWhile (\<lambda>c. c \<noteq> CHR ''-'') (rev podName));
          rest = dropWhile (\<lambda>c. c \<noteq> CHR ''-'') (rev podName)
      in if rest = [] \<or> suffix = [] \<or> \<not> list_all isDigit suffix then ([], - 1)
         else (rev (tl rest), int (parseNat suffix)))"

text \<open>
  Modelled from the spec: \<open>LeaderPod\<close> of package \<open>podutils\<close> is not among the sources.
  The spec: leader or worker is decided by a structural check on the pod's role, and the
  leader has ordinal 0 of the group's member sequence. The check is that the worker index
  label of the pod is \<open>0\<close>.
\<close>

definition specLeaderPod :: "string \<Rightarrow> Pod \<Rightarrow> bool" where
  "specLeaderPod workerIndexLabelKey pod = (index (Labels pod) workerIndexLabelKey = ''0'')"

text \<open>
  Modelled from the spec: \<open>Sha1Hash\<close> of package \<open>utils\<close> is not among the sources. The
  spec: the group unique key is a content-derived hash. As the name of the helper says,
  it is SHA-1 (FIPS 180-4) of the bytes of the string, written as 40 hexadecimal digits.
\<close>

definition rotl :: "nat \<Rightarrow> 32 word \<Rightarrow> 32 word" where
  "rotl n w = (push_bit n w) OR (drop_bit (32 - n) w)"

definition sha1Pad :: "8 word list \<Rightarrow> 8 word list" where
  "sha1Pad bs =
     bs @ [0x80] @ replicate ((119 - length bs mod 64) mod 64) 0
        @ map (\<lambda>i. ucast (drop_bit (8 * (7 - i)) (of_nat (8 * length bs) :: 64 word))) [0..<8]"

fun wordsOf :: "8 word list \<Rightarrow> 32 word list" where
  "wordsOf (a # b # c # e # bs) =
     (push_bit 24 (ucast a) OR push_bit 16 (ucast b) OR push_bit 8 (ucast c) OR ucast e) # wordsOf bs"
| "wordsOf bs = []"

fun blocksOf :: "nat \<Rightarrow> 32 word list \<Rightarrow> 32 word list list" where
  "blocksOf 0 ws = []"
| "blocksOf (Suc n) ws = take 16 ws # blocksOf n (drop 16 ws)"

definition schedule :: "32 word list \<Rightarrow> 32 word list" where
  "schedule ws = ((\<lambda>w. w @ [rotl 1 (w ! (length w - 3) XOR w ! (length w - 8)
       XOR w ! (length w - 14) XOR w ! (length w - 16))]) ^^ 64) ws"

definition sha1F :: "nat \<Rightarrow> 32 word \<Rightarrow> 32 word \<Rightarrow> 32 word \<Rightarrow> 32 word" where
  "sha1F t b c e =
     (if t < 20 then (b AND c) OR (NOT b AND e)
      else if t < 40 then b XOR c XOR e
      else if t < 60 then (b AND c) OR (b AND e) OR (c AND e)
      else b XOR c XOR e)"

definition sha1K :: "nat \<Rightarrow> 32 word" where
  "sha1K t = (if t < 20 then 0x5A827999 else if t < 40 then 0x6ED9EBA1
              else if t < 60 then 0x8F1BBCDC else 0xCA62C1D6)"

type_synonym sha1State = "32 word \<times> 32 word \<times> 32 word \<times> 32 word \<times> 32 word"

fun sha1Round :: "32 word list \<Rightarrow> sha1State \<Rightarrow> nat \<Rightarrow> sha1State" where
  "sha1Round w (a, b, c, e, f) t =
     (rotl 5 a + sha1F t b c e + f + sha1K t + w ! t, a, rotl 30 b, c, e)"

fun sha1Block :: "sha1State \<Rightarrow> 32 word list \<Rightarrow> sha1State" where
  "sha1Block (h0, h1, h2, h3, h4) ws =
     (case foldl (sha1Round (schedule ws)) (h0, h1, h2, h3, h4) [0..<80] of
        (a, b, c, e, f) \<Rightarrow> (h0 + a, h1 + b, h2 + c, h3 + e, h4 + f))"

definition hexWord :: "32 word \<Rightarrow> string" where
  "hexWord w = map (\<lambda>i. ''0123456789abcdef'' ! (unat (drop_bit (4 * (7 - i)) w) mod 16)) [0..<8]"

definition specSha1Hash :: "string \<Rightarrow> string" where
  "specSha1Hash s =
     (let ws = wordsOf (sha1Pad (map of_char s));
          blocks = blocksOf (length ws div 16) ws
      in case foldl sha1Block (0x67452301, 0xEFCDAB89, 0x98BADCFE, 0x10325476, 0xC3D2E1F0) blocks of
           (a, b, c, e, f) \<Rightarrow> concat (map hexWord [a, b, c, e, f]))"

text \<open>
  Modelled from the spec: \<open>PodRequestsTPUs\<close> and \<open>AddTPUVariables\<close> of package
  \<open>acceleratorutils\<close> are not among the sources. The spec: the injection is for a pod
  whose container resource requests reference the accelerator type, and it injects
  environment variables describing the coordination group size into the matching
  containers. The spec names neither the resource nor the variables: the resource is
  \<open>google.com/tpu\<close>, and one variable, \<open>TPU_GROUP_SIZE\<close> with the size in decimal, stands
  for the variables.
\<close>

definition containerRequestsTPUs :: "Container \<Rightarrow> bool" where
  "containerRequestsTPUs c = (Requests (Resources c) ''google.com/tpu'' \<noteq> None)"

definition specPodRequestsTPUs :: "PodSpec \<Rightarrow> bool" where
  "specPodRequestsTPUs s =
     (list_ex containerRequestsTPUs (Containers s) \<or> list_ex containerRequestsTPUs (InitContainers s))"

definition addVariable :: "int \<Rightarrow> Container \<Rightarrow> Container" where
  "addVariable podCount c =
     (if containerRequestsTPUs c
      then c\<lparr>Env := Env c @ [\<lparr>EnvVar.Name = ''TPU_GROUP_SIZE'', Value = Sprint podCount\<rparr>]\<rparr>
      else c)"

definition specAddTPUVariables :: "Pod \<Rightarrow> int \<Rightarrow> error option \<times> Pod" where
  "specAddTPUVariables pod podCount =
     (None, pod\<lparr>Spec := (Spec pod)\<lparr>InitContainers := map (addVariable podCount) (InitContainers (Spec pod)),
                                     Containers := map (addVariable podCount) (Containers (Spec pod))\<rparr>\<rparr>)"

text \<open>
  Modelled from the spec: the key constants of package \<open>leaderworkerset\<close> are not among
  the sources. The spec speaks of the group-membership label, the group index, the worker
  index, the group unique key, the exclusive-placement topology annotation and the
  group-size annotation; the example manifests among the sources read
  \<open>leaderworkerset.sigs.k8s.io/name\<close> and \<open>leaderworkerset.sigs.k8s.io/size\<close>, and the
  other keys are under the same prefix.
\<close>

definition lwsDeps :: deps where
  "lwsDeps =
     \<lparr>SetNameLabelKey = ''leaderworkerset.sigs.k8s.io/name'',
      GroupIndexLabelKey = ''leaderworkerset.sigs.k8s.io/group-index'',
      WorkerIndexLabelKey = ''leaderworkerset.sigs.k8s.io/worker-index'',
      GroupUniqueHashLabelKey = ''leaderworkerset.sigs.k8s.io/group-key'',
      ExclusiveKeyAnnotationKey = ''leaderworkerset.sigs.k8s.io/exclusive-topology'',
      SizeAnnotationKey = ''leaderworkerset.sigs.k8s.io/size'',
      LeaderPod = specLeaderPod ''leaderworkerset.sigs.k8s.io/worker-index'',
      GetParentNameAndOrdinal = specGetParentNameAndOrdinal,
      Sha1Hash = specSha1Hash,
      PodRequestsTPUs = specPodRequestsTPUs,
      AddTPUVariables = specAddTPUVariables\<rparr>"

subsection \<open>Example pods\<close>

text \<open>A pod that is not part of a LeaderWorkerSet.\<close>

definition unlabelledPod :: Pod where
  "unlabelledPod =
     \<lparr>Name = ''nginx'', Namespace = ''default'',
      Labels = [''app'' \<mapsto> ''nginx''], Annotations = Map.empty,
      Spec = \<lparr>InitContainers = [], Containers = [], Affinity = None\<rparr>\<rparr>"

text \<open>
  A leader of the LeaderWorkerSet \<open>sample\<close>, annotated for exclusive placement in a
  zone, with no affinity yet; and the same leader with an anti-affinity term of its own,
  scoped to the host name, and no pod affinity.
\<close>

definition leaderPod :: Pod where
  "leaderPod =
     \<lparr>Name = ''sample-0'', Namespace = ''default'',
      Labels = [''leaderworkerset.sigs.k8s.io/name'' \<mapsto> ''sample'',
                ''leaderworkerset.sigs.k8s.io/worker-index'' \<mapsto> ''0''],
      Annotations = [''leaderworkerset.sigs.k8s.io/exclusive-topology'' \<mapsto> ''topology.kubernetes.io/zone'',
                     ''leaderworkerset.sigs.k8s.io/size'' \<mapsto> ''4''],
      Spec = \<lparr>InitContainers = [], Containers = [], Affinity = None\<rparr>\<rparr>"

definition hostnameTerm :: PodAffinityTerm where
  "hostnameTerm = \<lparr>LabelSelector = None, Namespaces = [], TopologyKey = ''kubernetes.io/hostname''\<rparr>"

definition halfAffinity :: Affinity where
  "halfAffinity =
     \<lparr>NodeAffinity = None, PodAffinity = None,
      PodAntiAffinity = Some
        \<lparr>PodAntiAffinity.RequiredDuringSchedulingIgnoredDuringExecution = [hostnameTerm],
         PodAntiAffinity.PreferredDuringSchedulingIgnoredDuringExecution = []\<rparr>\<rparr>"

definition halfPlacedLeader :: Pod where
  "halfPlacedLeader = setAffinity leaderPod halfAffinity"

text \<open>
  A leader that requests the accelerator and has no group-size annotation; a leader whose
  name has no ordinal, with and without the group index label; a worker whose name has no
  ordinal; a worker whose worker index label differs from the ordinal of its name; a
  leader that carries its group unique key already and is annotated for exclusive
  placement; a leader whose group index label differs from the ordinal of its name.
\<close>

definition tpuContainer :: Container where
  "tpuContainer =
     \<lparr>Container.Name = ''worker'', Env = [],
      Resources = \<lparr>Limits = [''google.com/tpu'' \<mapsto> ''4''], Requests = [''google.com/tpu'' \<mapsto> ''4'']\<rparr>\<rparr>"

definition tpuLeader :: Pod where
  "tpuLeader =
     \<lparr>Name = ''sample-0'', Namespace = ''default'',
      Labels = [''leaderworkerset.sigs.k8s.io/name'' \<mapsto> ''sample'',
                ''leaderworkerset.sigs.k8s.io/worker-index'' \<mapsto> ''0''],
      Annotations = Map.empty,
      Spec = \<lparr>InitContainers = [], Containers = [tpuContainer], Affinity = None\<rparr>\<rparr>"

definition indexedLeader :: Pod where
  "indexedLeader =
     \<lparr>Name = ''sample-x'', Namespace = ''default'',
      Labels = [''leaderworkerset.sigs.k8s.io/name'' \<mapsto> ''sample'',
                ''leaderworkerset.sigs.k8s.io/worker-index'' \<mapsto> ''0'',
                ''leaderworkerset.sigs.k8s.io/group-index'' \<mapsto> ''0''],
      Annotations = Map.empty,
      Spec = \<lparr>InitContainers = [], Containers = [], Affinity = None\<rparr>\<rparr>"

definition unparsableLeader :: Pod where
  "unparsableLeader =
     \<lparr>Name = ''sample-x'', Namespace = ''default'',
      Labels = [''leaderworkerset.sigs.k8s.io/name'' \<mapsto> ''sample'',
                ''leaderworkerset.sigs.k8s.io/worker-index'' \<mapsto> ''0''],
      Annotations = Map.empty,
      Spec = \<lparr>InitContainers = [], Containers = [], Affinity = None\<rparr>\<rparr>"

definition unparsableWorker :: Pod where
  "unparsableWorker =
     \<lparr>Name = ''sample-0-x'', Namespace = ''default'',
      Labels = [''leaderworkerset.sigs.k8s.io/name'' \<mapsto> ''sample''],
      Annotations = Map.empty,
      Spec = \<lparr>InitContainers = [], Containers = [], Affinity = None\<rparr>\<rparr>"

definition staleWorker :: Pod where
  "staleWorker =
     \<lparr>Name = ''sample-0-3'', Namespace = ''default'',
      Labels = [''leaderworkerset.sigs.k8s.io/name'' \<mapsto> ''sample'',
                ''leaderworkerset.sigs.k8s.io/worker-index'' \<mapsto> ''7''],
      Annotations = Map.empty,
      Spec = \<lparr>InitContainers = [], Containers = [], Affinity = None\<rparr>\<rparr>"

definition keyedLeader :: Pod where
  "keyedLeader =
     \<lparr>Name = ''sample-0'', Namespace = ''default'',
      Labels = [''leaderworkerset.sigs.k8s.io/name'' \<mapsto> ''sample'',
                ''leaderworkerset.sigs.k8s.io/worker-index'' \<mapsto> ''0'',
                ''leaderworkerset.sigs.k8s.io/group-index'' \<mapsto> ''0'',
                ''leaderworkerset.sigs.k8s.io/group-key'' \<mapsto> ''1234''],
      Annotations = [''leaderworkerset.sigs.k8s.io/exclusive-topology'' \<mapsto> ''topology.kubernetes.io/zone''],
      Spec = \<lparr>InitContainers = [], Containers = [], Affinity = None\<rparr>\<rparr>"

definition staleLeader :: Pod where
  "staleLeader =
     \<lparr>Name = ''sample-3'', Namespace = ''default'',
      Labels = [''leaderworkerset.sigs.k8s.io/name'' \<mapsto> ''sample'',
                ''leaderworkerset.sigs.k8s.io/worker-index'' \<mapsto> ''0'',
                ''leaderworkerset.sigs.k8s.io/group-index'' \<mapsto> ''7'',
                ''leaderworkerset.sigs.k8s.io/group-key'' \<mapsto> ''1234''],
      Annotations = Map.empty,
      Spec = \<lparr>InitContainers = [], Containers = [], Affinity = None\<rparr>\<rparr>"

text \<open>
  The leader \<open>leaderPod\<close> as \<open>Default\<close> leaves it: the group index of its name, the
  group unique key of its namespace and name, and the two terms of exclusive placement.
\<close>

definition admittedLeader :: Pod where
  "admittedLeader =
     \<lparr>Name = ''sample-0'', Namespace = ''default'',
      Labels = [''leaderworkerset.sigs.k8s.io/name'' \<mapsto> ''sample'',
                ''leaderworkerset.sigs.k8s.io/worker-index'' \<mapsto> ''0'',
                ''leaderworkerset.sigs.k8s.io/group-index'' \<mapsto> ''0'',
                ''leaderworkerset.sigs.k8s.io/group-key'' \<mapsto> specSha1Hash ''default/sample-0''],
      Annotations = [''leaderworkerset.sigs.k8s.io/exclusive-topology'' \<mapsto> ''topology.kubernetes.io/zone'',
                     ''leaderworkerset.sigs.k8s.io/size'' \<mapsto> ''4''],
      Spec = \<lparr>InitContainers = [], Containers = [],
        Affinity = Some
          \<lparr>NodeAffinity = None,
           PodAffinity = Some
             \<lparr>PodAffinity.RequiredDuringSchedulingIgnoredDuringExecution =
                [\<lparr>LabelSelector = Some \<lparr>MatchLabels = [], MatchExpressions =
                    [\<lparr>Key = ''leaderworkerset.sigs.k8s.io/group-key'', Operator = LabelSelectorOpIn,
                      Values = [specSha1Hash ''default/sample-0'']\<rparr>]\<rparr>,
                  Namespaces = [], TopologyKey = ''topology.kubernetes.io/zone''\<rparr>],
              PodAffinity.PreferredDuringSchedulingIgnoredDuringExecution = []\<rparr>,
           PodAntiAffinity = Some
             \<lparr>PodAntiAffinity.RequiredDuringSchedulingIgnoredDuringExecution =
                [\<lparr>LabelSelector = Some \<lparr>MatchLabels = [], MatchExpressions =
                    [\<lparr>Key = ''leaderworkerset.sigs.k8s.io/group-key'', Operator = LabelSelectorOpExists,
                      Values = []\<rparr>,
                     \<lparr>Key = ''leaderworkerset.sigs.k8s.io/group-key'', Operator = LabelSelectorOpNotIn,
                      Values = [specSha1Hash ''default/sample-0'']\<rparr>]\<rparr>,
                  Namespaces = [], TopologyKey = ''topology.kubernetes.io/zone''\<rparr>],
              PodAntiAffinity.PreferredDuringSchedulingIgnoredDuringExecution = []\<rparr>\<rparr>\<rparr>\<rparr>"

text \<open>The leader \<open>keyedLeader\<close> as \<open>Default\<close> leaves it: placed with the key it came with.\<close>

definition admittedKeyedLeader :: Pod where
  "admittedKeyedLeader =
     \<lparr>Name = ''sample-0'', Namespace = ''default'',
      Labels = [''leaderworkerset.sigs.k8s.io/name'' \<mapsto> ''sample'',
                ''leaderworkerset.sigs.k8s.io/worker-index'' \<mapsto> ''0'',
                ''leaderworkerset.sigs.k8s.io/group-index'' \<mapsto> ''0'',
                ''leaderworkerset.sigs.k8s.io/group-key'' \<mapsto> ''1234''],
      Annotations = [''leaderworkerset.sigs.k8s.io/exclusive-topology'' \<mapsto> ''topology.kubernetes.io/zone''],
      Spec = \<lparr>InitContainers = [], Containers = [],
        Affinity = Some
          \<lparr>NodeAffinity = None,
           PodAffinity = Some
             \<lparr>PodAffinity.RequiredDuringSchedulingIgnoredDuringExecution =
                [\<lparr>LabelSelector = Some \<lparr>MatchLabels = [], MatchExpressions =
                    [\<lparr>Key = ''leaderworkerset.sigs.k8s.io/group-key'', Operator = LabelSelectorOpIn,
                      Values = [''1234'']\<rparr>]\<rparr>,
                  Namespaces = [], TopologyKey = ''topology.kubernetes.io/zone''\<rparr>],
              PodAffinity.PreferredDuringSchedulingIgnoredDuringExecution = []\<rparr>,
           PodAntiAffinity = Some
             \<lparr>PodAntiAffinity.RequiredDuringSchedulingIgnoredDuringExecution =
                [\<lparr>LabelSelector = Some \<lparr>MatchLabels = [], MatchExpressions =
                    [\<lparr>Key = ''leaderworkerset.sigs.k8s.io/group-key'', Operator = LabelSelectorOpExists,
                      Values = []\<rparr>,
                     \<lparr>Key = ''leaderworkerset.sigs.k8s.io/group-key'', Operator = LabelSelectorOpNotIn,
                      Values = [''1234'']\<rparr>]\<rparr>,
                  Namespaces = [], TopologyKey = ''topology.kubernetes.io/zone''\<rparr>],
              PodAntiAffinity.PreferredDuringSchedulingIgnoredDuringExecution = []\<rparr>\<rparr>\<rparr>\<rparr>"

text \<open>
  The leader \<open>leaderPod\<close> with the affinity term of exclusive placement and no
  anti-affinity; with both terms; and without its annotations.
\<close>

definition halfAppliedLeader :: Pod where
  "halfAppliedLeader =
     setAffinity leaderPod
       \<lparr>NodeAffinity = None,
        PodAffinity = Some
          \<lparr>PodAffinity.RequiredDuringSchedulingIgnoredDuringExecution = [affinityTerm lwsDeps leaderPod ''k1''],
           PodAffinity.PreferredDuringSchedulingIgnoredDuringExecution = []\<rparr>,
        PodAntiAffinity = None\<rparr>"

definition placedLeader :: Pod where
  "placedLeader =
     setAffinity leaderPod
       \<lparr>NodeAffinity = None,
        PodAffinity = Some
          \<lparr>PodAffinity.RequiredDuringSchedulingIgnoredDuringExecution = [affinityTerm lwsDeps leaderPod ''k1''],
           PodAffinity.PreferredDuringSchedulingIgnoredDuringExecution = []\<rparr>,
        PodAntiAffinity = Some
          \<lparr>PodAntiAffinity.RequiredDuringSchedulingIgnoredDuringExecution = [antiAffinityTerm lwsDeps leaderPod ''k1''],
           PodAntiAffinity.PreferredDuringSchedulingIgnoredDuringExecution = []\<rparr>\<rparr>"

definition unannotatedLeader :: Pod where
  "unannotatedLeader = leaderPod\<lparr>Annotations := Map.empty\<rparr>"

text \<open>A leader with one container that requests no accelerator.\<close>

definition cpuContainer :: Container where
  "cpuContainer =
     \<lparr>Container.Name = ''nginx'', Env = [],
      Resources = \<lparr>Limits = [''cpu'' \<mapsto> ''100m''], Requests = [''cpu'' \<mapsto> ''50m'']\<rparr>\<rparr>"

definition cpuLeader :: Pod where
  "cpuLeader =
     \<lparr>Name = ''sample-0'', Namespace = ''default'',
      Labels = [''leaderworkerset.sigs.k8s.io/name'' \<mapsto> ''sample'',
                ''leaderworkerset.sigs.k8s.io/worker-index'' \<mapsto> ''0''],
      Annotations = Map.empty,
      Spec = \<lparr>InitContainers = [], Containers = [cpuContainer], Affinity = None\<rparr>\<rparr>"

subsection \<open>The labels of an admitted leader\<close>

text \<open>
  The labels a leader has after its two label blocks: the group index label and then the
  group unique key label, each written only where the key is absent.
\<close>

definition leaderLabels :: "deps \<Rightarrow> Pod \<Rightarrow> (string \<rightharpoonup> string)" where
  "leaderLabels d pod =
     (let l = (if Labels pod (GroupIndexLabelKey d) = None
               then (Labels pod)(GroupIndexLabelKey d \<mapsto> Sprint (snd (GetParentNameAndOrdinal d (Pod.Name pod))))
               else Labels pod)
      in if l (GroupUniqueHashLabelKey d) = None
         then l(GroupUniqueHashLabelKey d \<mapsto> genGroupUniqueKey d (Namespace pod) (Pod.Name pod))
         else l)"

section \<open>Properties\<close>

subsection \<open>The validating webhook\<close>

text \<open>
  C10. The validating path never rejects a pod: for an object that is a pod, \<open>validate\<close>
  and \<open>ValidateCreate\<close> return nil warnings and a nil error, with or without the
  group-membership label; \<open>ValidateUpdate\<close> and \<open>ValidateDelete\<close> return nil and nil
  for every object; and \<open>validate\<close> returns an error exactly for an object that is not a
  pod, namely the error that a pod was expected.
\<close>

theorem validating_admits_every_pod:
  "validate d (PodObject pod) = (None, None)
   \<and> ValidateCreate d (PodObject pod) = (None, None)
   \<and> ValidateUpdate d oldObj newObj = (None, None)
   \<and> ValidateDelete d obj = (None, None)
   \<and> validate d (OtherObject t) = (None, Some (ExpectedPod t))
   \<and> ValidateCreate d (OtherObject t) = (None, Some (ExpectedPod t))
   \<and> (snd (validate d obj) \<noteq> None) = (\<exists>t. obj = OtherObject t)"
  by (cases obj) (simp_all add: validate_def ValidateCreate_def ValidateUpdate_def ValidateDelete_def)

subsection \<open>Pods outside a group\<close>

text \<open>
  C3. A pod without the group-membership label passes both paths untouched: \<open>Default\<close>
  returns no error and leaves the pod exactly as it was (labels, annotations, affinity and
  containers with their environment variables), and \<open>validate\<close> returns no error.
\<close>

theorem unlabelled_pod_unmodified:
  assumes "Labels pod (SetNameLabelKey d) = None"
  shows "Default d (PodObject pod) = (None, PodObject pod)
         \<and> validate d (PodObject pod) = (None, None)"
  using assms by (simp add: Default_def validate_def)

theorem unlabelled_pod_unmodified_witness:
  "Labels unlabelledPod (SetNameLabelKey lwsDeps) = None
   \<and> Default lwsDeps (PodObject unlabelledPod) = (None, PodObject unlabelledPod)
   \<and> validate lwsDeps (PodObject unlabelledPod) = (None, None)"
proof -
  have h: "Labels unlabelledPod (SetNameLabelKey lwsDeps) = None"
    by (simp add: unlabelledPod_def lwsDeps_def)
  show ?thesis using h unlabelled_pod_unmodified [OF h] by simp
qed

subsection \<open>Exclusive placement\<close>

text \<open>
  \<open>SetExclusiveAffinities\<close> in closed form: the affinity, the pod affinity and the pod
  anti-affinity it works on are those of the pod, or fresh ones where the pod has none.
\<close>

lemma affinityTerm_setAffinity [simp]:
  "affinityTerm d (setAffinity pod a) k = affinityTerm d pod k"
  "antiAffinityTerm d (setAffinity pod a) k = antiAffinityTerm d pod k"
  by (simp_all add: affinityTerm_def antiAffinityTerm_def setAffinity_def)

lemma setAffinity_twice [simp]: "setAffinity (setAffinity pod a) b = setAffinity pod b"
  by (simp add: setAffinity_def)

lemma Affinity_setAffinity [simp]: "Affinity (Spec (setAffinity pod a)) = Some a"
  by (simp add: setAffinity_def)

lemma SetExclusiveAffinities_closed:
  "SetExclusiveAffinities d pod k =
     (let a0 = (case Affinity (Spec pod) of
                  None \<Rightarrow> \<lparr>NodeAffinity = None, PodAffinity = None, PodAntiAffinity = None\<rparr>
                | Some a \<Rightarrow> a);
          pa0 = (case PodAffinity a0 of
                   None \<Rightarrow> \<lparr>PodAffinity.RequiredDuringSchedulingIgnoredDuringExecution = [],
                            PodAffinity.PreferredDuringSchedulingIgnoredDuringExecution = []\<rparr>
                 | Some pa \<Rightarrow> pa);
          paa0 = (case PodAntiAffinity a0 of
                   None \<Rightarrow> \<lparr>PodAntiAffinity.RequiredDuringSchedulingIgnoredDuringExecution = [],
                            PodAntiAffinity.PreferredDuringSchedulingIgnoredDuringExecution = []\<rparr>
                 | Some paa \<Rightarrow> paa)
      in Some (setAffinity pod
           (a0\<lparr>PodAffinity := Some
                 (pa0\<lparr>PodAffinity.RequiredDuringSchedulingIgnoredDuringExecution :=
                    PodAffinity.RequiredDuringSchedulingIgnoredDuringExecution pa0 @ [affinityTerm d pod k]\<rparr>),
               PodAntiAffinity := Some
                 (paa0\<lparr>PodAntiAffinity.RequiredDuringSchedulingIgnoredDuringExecution :=
                    PodAntiAffinity.RequiredDuringSchedulingIgnoredDuringExecution paa0 @ [antiAffinityTerm d pod k]\<rparr>)\<rparr>)))"
  unfolding SetExclusiveAffinities_def
  by (cases "Affinity (Spec pod)"; cases "PodAffinity (the (Affinity (Spec pod)))"; cases "PodAntiAffinity (the (Affinity (Spec pod)))")
     (simp_all add: Let_def)

lemma SetExclusiveAffinities_terms:
  "\<exists>pod'. SetExclusiveAffinities d pod k = Some pod'
     \<and> requiredAffinityTerms pod' = requiredAffinityTerms pod @ [affinityTerm d pod k]
     \<and> requiredAntiAffinityTerms pod' = requiredAntiAffinityTerms pod @ [antiAffinityTerm d pod k]
     \<and> Annotations pod' = Annotations pod \<and> Labels pod' = Labels pod
     \<and> Pod.Name pod' = Pod.Name pod \<and> Namespace pod' = Namespace pod
     \<and> Containers (Spec pod') = Containers (Spec pod)
     \<and> InitContainers (Spec pod') = InitContainers (Spec pod)"
  by (simp add: SetExclusiveAffinities_closed Let_def requiredAffinityTerms_def
      requiredAntiAffinityTerms_def setAffinity_def split: option.splits)

lemma scanTerms_iff: "scanTerms topo ts has = (has \<or> scopedTo topo ts \<noteq> [])"
  by (induction ts arbitrary: has) (auto simp: scopedTo_def)

lemma exclusiveAffinityApplied_iff:
  "exclusiveAffinityApplied d pod =
     (scopedTo (index (Annotations pod) (ExclusiveKeyAnnotationKey d)) (requiredAffinityTerms pod) \<noteq> []
      \<and> scopedTo (index (Annotations pod) (ExclusiveKeyAnnotationKey d)) (requiredAntiAffinityTerms pod) \<noteq> [])"
  by (simp add: exclusiveAffinityApplied_def requiredAffinityTerms_def requiredAntiAffinityTerms_def
      scanTerms_iff scopedTo_def split: option.splits)

lemma TopologyKey_terms [simp]:
  "TopologyKey (affinityTerm d pod k) = index (Annotations pod) (ExclusiveKeyAnnotationKey d)"
  "TopologyKey (antiAffinityTerm d pod k) = index (Annotations pod) (ExclusiveKeyAnnotationKey d)"
  by (simp_all add: affinityTerm_def antiAffinityTerm_def)

lemma applied_after_SetExclusiveAffinities:
  assumes "SetExclusiveAffinities d pod k = Some pod'"
  shows "exclusiveAffinityApplied d pod'"
  using SetExclusiveAffinities_terms [of d pod k] assms
  by (auto simp: exclusiveAffinityApplied_iff scopedTo_def)

text \<open>
  The third block of the leader in full: it never fails, it is a no-op on the pod it
  returns, and it appends one term to each list exactly when the pod is annotated and the
  required affinity terms or the required anti-affinity terms have none scoped to the
  topology key; otherwise it returns the pod as it is.
\<close>

lemma applyExclusivePlacement_result:
  "\<exists>pod1.
      applyExclusivePlacement d pod k = (None, pod1)
    \<and> applyExclusivePlacement d pod1 k' = (None, pod1)
    \<and> (if Annotations pod (ExclusiveKeyAnnotationKey d) \<noteq> None
            \<and> (scopedTo (index (Annotations pod) (ExclusiveKeyAnnotationKey d)) (requiredAffinityTerms pod) = []
               \<or> scopedTo (index (Annotations pod) (ExclusiveKeyAnnotationKey d)) (requiredAntiAffinityTerms pod) = [])
         then requiredAffinityTerms pod1 = requiredAffinityTerms pod @ [affinityTerm d pod k]
            \<and> requiredAntiAffinityTerms pod1 = requiredAntiAffinityTerms pod @ [antiAffinityTerm d pod k]
         else pod1 = pod)"
proof (cases "Annotations pod (ExclusiveKeyAnnotationKey d) \<noteq> None \<and> \<not> exclusiveAffinityApplied d pod")
  case True
  obtain pod' where p: "SetExclusiveAffinities d pod k = Some pod'"
    and t: "requiredAffinityTerms pod' = requiredAffinityTerms pod @ [affinityTerm d pod k]"
       "requiredAntiAffinityTerms pod' = requiredAntiAffinityTerms pod @ [antiAffinityTerm d pod k]"
    using SetExclusiveAffinities_terms [of d pod k] by blast
  from True p have 1: "applyExclusivePlacement d pod k = (None, pod')"
    by (simp add: applyExclusivePlacement_def)
  have "exclusiveAffinityApplied d pod'"
    using p by (rule applied_after_SetExclusiveAffinities)
  then have 2: "applyExclusivePlacement d pod' k' = (None, pod')"
    by (simp add: applyExclusivePlacement_def)
  from True have g: "scopedTo (index (Annotations pod) (ExclusiveKeyAnnotationKey d)) (requiredAffinityTerms pod) = []
      \<or> scopedTo (index (Annotations pod) (ExclusiveKeyAnnotationKey d)) (requiredAntiAffinityTerms pod) = []"
    by (simp add: exclusiveAffinityApplied_iff)
  from 1 2 t g True show ?thesis
    by auto
next
  case False
  then have 1: "applyExclusivePlacement d pod k = (None, pod)"
    and 2: "applyExclusivePlacement d pod k' = (None, pod)"
    by (auto simp: applyExclusivePlacement_def)
  with False show ?thesis
    by (auto simp: exclusiveAffinityApplied_iff)
qed

lemma leaderPod_facts:
  "Annotations leaderPod (ExclusiveKeyAnnotationKey lwsDeps) \<noteq> None"
  "index (Annotations leaderPod) (ExclusiveKeyAnnotationKey lwsDeps) = ''topology.kubernetes.io/zone''"
  "requiredAffinityTerms leaderPod = []"
  "requiredAntiAffinityTerms leaderPod = []"
  by (simp_all add: leaderPod_def lwsDeps_def index_def requiredAffinityTerms_def
      requiredAntiAffinityTerms_def)

lemma halfAppliedLeader_facts:
  "Annotations halfAppliedLeader = Annotations leaderPod"
  "requiredAffinityTerms halfAppliedLeader = [affinityTerm lwsDeps leaderPod ''k1'']"
  "requiredAntiAffinityTerms halfAppliedLeader = []"
  "affinityTerm lwsDeps halfAppliedLeader k = affinityTerm lwsDeps leaderPod k"
  "antiAffinityTerm lwsDeps halfAppliedLeader k = antiAffinityTerm lwsDeps leaderPod k"
  by (simp_all add: halfAppliedLeader_def requiredAffinityTerms_def requiredAntiAffinityTerms_def)
    (simp add: setAffinity_def)

lemma placedLeader_facts:
  "Annotations placedLeader = Annotations leaderPod"
  "requiredAffinityTerms placedLeader = [affinityTerm lwsDeps leaderPod ''k1'']"
  "requiredAntiAffinityTerms placedLeader = [antiAffinityTerm lwsDeps leaderPod ''k1'']"
  by (simp_all add: placedLeader_def requiredAffinityTerms_def requiredAntiAffinityTerms_def)
    (simp add: setAffinity_def)

lemma unannotatedLeader_facts:
  "Annotations unannotatedLeader (ExclusiveKeyAnnotationKey lwsDeps) = None"
  by (simp add: unannotatedLeader_def)

lemma placement_halfAppliedLeader:
  "\<exists>pod1. applyExclusivePlacement lwsDeps halfAppliedLeader ''k1'' = (None, pod1)
     \<and> requiredAffinityTerms pod1
         = [affinityTerm lwsDeps leaderPod ''k1'', affinityTerm lwsDeps leaderPod ''k1'']
     \<and> requiredAntiAffinityTerms pod1 = [antiAffinityTerm lwsDeps leaderPod ''k1'']"
  using applyExclusivePlacement_result [of lwsDeps halfAppliedLeader "''k1''" "''k1''"]
  by (auto simp: halfAppliedLeader_facts leaderPod_facts scopedTo_def)

text \<open>
  C1, as stated, fails: the result is not always a single pair. The append is skipped only
  when both lists have a term scoped to the topology key. The leader \<open>halfAppliedLeader\<close>
  has the affinity term of exclusive placement and no anti-affinity term; one application
  leaves it with that affinity term twice.
\<close>

theorem affinity_term_twice:
  "scopedTo ''topology.kubernetes.io/zone'' (requiredAffinityTerms halfAppliedLeader)
     = [affinityTerm lwsDeps leaderPod ''k1'']
   \<and> fst (applyExclusivePlacement lwsDeps halfAppliedLeader ''k1'') = None
   \<and> scopedTo ''topology.kubernetes.io/zone''
        (requiredAffinityTerms (snd (applyExclusivePlacement lwsDeps halfAppliedLeader ''k1'')))
     = [affinityTerm lwsDeps leaderPod ''k1'', affinityTerm lwsDeps leaderPod ''k1'']"
proof -
  obtain pod1 where "applyExclusivePlacement lwsDeps halfAppliedLeader ''k1'' = (None, pod1)"
    and "requiredAffinityTerms pod1
         = [affinityTerm lwsDeps leaderPod ''k1'', affinityTerm lwsDeps leaderPod ''k1'']"
    using placement_halfAppliedLeader by blast
  then show ?thesis
    by (simp add: halfAppliedLeader_facts leaderPod_facts scopedTo_def)
qed

text \<open>
  C1, amended. The block of \<open>Default\<close> that applies \<open>SetExclusiveAffinities\<close> unless
  \<open>exclusiveAffinityApplied\<close> holds never fails, and applied again to the pod it
  returns (with any group unique key) it changes nothing. It appends exactly one term to
  the required affinity terms and one to the required anti-affinity terms when the pod is
  annotated and one of the two lists has no term scoped to the topology key of the
  annotation, also when the other list has one; when the pod is not annotated, or both
  lists have such a term, it returns the pod as it is. For an annotated pod with no term
  scoped to that key in either list, the pod has exactly one such affinity term and one
  such anti-affinity term after one application, hence after two.
\<close>

theorem exclusive_placement_once:
  "\<exists>pod1.
      applyExclusivePlacement d pod k = (None, pod1)
    \<and> applyExclusivePlacement d pod1 k' = (None, pod1)
    \<and> (if Annotations pod (ExclusiveKeyAnnotationKey d) \<noteq> None
            \<and> (scopedTo (index (Annotations pod) (ExclusiveKeyAnnotationKey d)) (requiredAffinityTerms pod) = []
               \<or> scopedTo (index (Annotations pod) (ExclusiveKeyAnnotationKey d)) (requiredAntiAffinityTerms pod) = [])
         then requiredAffinityTerms pod1 = requiredAffinityTerms pod @ [affinityTerm d pod k]
            \<and> requiredAntiAffinityTerms pod1 = requiredAntiAffinityTerms pod @ [antiAffinityTerm d pod k]
         else pod1 = pod)
    \<and> (Annotations pod (ExclusiveKeyAnnotationKey d) \<noteq> None
        \<and> scopedTo (index (Annotations pod) (ExclusiveKeyAnnotationKey d)) (requiredAffinityTerms pod) = []
        \<and> scopedTo (index (Annotations pod) (ExclusiveKeyAnnotationKey d)) (requiredAntiAffinityTerms pod) = []
       \<longrightarrow> scopedTo (index (Annotations pod) (ExclusiveKeyAnnotationKey d)) (requiredAffinityTerms pod1)
             = [affinityTerm d pod k]
         \<and> scopedTo (index (Annotations pod) (ExclusiveKeyAnnotationKey d)) (requiredAntiAffinityTerms pod1)
             = [antiAffinityTerm d pod k])"
proof -
  obtain pod1 where r: "applyExclusivePlacement d pod k = (None, pod1)"
      "applyExclusivePlacement d pod1 k' = (None, pod1)"
      "if Annotations pod (ExclusiveKeyAnnotationKey d) \<noteq> None
            \<and> (scopedTo (index (Annotations pod) (ExclusiveKeyAnnotationKey d)) (requiredAffinityTerms pod) = []
               \<or> scopedTo (index (Annotations pod) (ExclusiveKeyAnnotationKey d)) (requiredAntiAffinityTerms pod) = [])
         then requiredAffinityTerms pod1 = requiredAffinityTerms pod @ [affinityTerm d pod k]
            \<and> requiredAntiAffinityTerms pod1 = requiredAntiAffinityTerms pod @ [antiAffinityTerm d pod k]
         else pod1 = pod"
    using applyExclusivePlacement_result [of d pod k k'] by blast
  have "scopedTo (index (Annotations pod) (ExclusiveKeyAnnotationKey d)) (requiredAffinityTerms pod1)
             = [affinityTerm d pod k]
         \<and> scopedTo (index (Annotations pod) (ExclusiveKeyAnnotationKey d)) (requiredAntiAffinityTerms pod1)
             = [antiAffinityTerm d pod k]"
    if "Annotations pod (ExclusiveKeyAnnotationKey d) \<noteq> None
        \<and> scopedTo (index (Annotations pod) (ExclusiveKeyAnnotationKey d)) (requiredAffinityTerms pod) = []
        \<and> scopedTo (index (Annotations pod) (ExclusiveKeyAnnotationKey d)) (requiredAntiAffinityTerms pod) = []"
    using r(3) that by (simp add: scopedTo_def)
  with r show ?thesis by blast
qed

theorem exclusive_placement_once_witness:
  "(\<exists>pod1. applyExclusivePlacement lwsDeps leaderPod ''k1'' = (None, pod1)
       \<and> applyExclusivePlacement lwsDeps pod1 ''k1'' = (None, pod1)
       \<and> requiredAffinityTerms pod1 = [affinityTerm lwsDeps leaderPod ''k1'']
       \<and> requiredAntiAffinityTerms pod1 = [antiAffinityTerm lwsDeps leaderPod ''k1''])
   \<and> (\<exists>pod1. applyExclusivePlacement lwsDeps halfAppliedLeader ''k1'' = (None, pod1)
       \<and> applyExclusivePlacement lwsDeps pod1 ''k1'' = (None, pod1)
       \<and> requiredAffinityTerms pod1
           = [affinityTerm lwsDeps leaderPod ''k1'', affinityTerm lwsDeps leaderPod ''k1'']
       \<and> requiredAntiAffinityTerms pod1 = [antiAffinityTerm lwsDeps leaderPod ''k1''])
   \<and> applyExclusivePlacement lwsDeps placedLeader ''k2'' = (None, placedLeader)
   \<and> applyExclusivePlacement lwsDeps unannotatedLeader ''k1'' = (None, unannotatedLeader)"
proof -
  from exclusive_placement_once [of lwsDeps leaderPod "''k1''" "''k1''"]
  have 1: "\<exists>pod1. applyExclusivePlacement lwsDeps leaderPod ''k1'' = (None, pod1)
       \<and> applyExclusivePlacement lwsDeps pod1 ''k1'' = (None, pod1)
       \<and> requiredAffinityTerms pod1 = [affinityTerm lwsDeps leaderPod ''k1'']
       \<and> requiredAntiAffinityTerms pod1 = [antiAffinityTerm lwsDeps leaderPod ''k1'']"
    by (auto simp: leaderPod_facts scopedTo_def)
  from exclusive_placement_once [of lwsDeps halfAppliedLeader "''k1''" "''k1''"]
  have 2: "\<exists>pod1. applyExclusivePlacement lwsDeps halfAppliedLeader ''k1'' = (None, pod1)
       \<and> applyExclusivePlacement lwsDeps pod1 ''k1'' = (None, pod1)
       \<and> requiredAffinityTerms pod1
           = [affinityTerm lwsDeps leaderPod ''k1'', affinityTerm lwsDeps leaderPod ''k1'']
       \<and> requiredAntiAffinityTerms pod1 = [antiAffinityTerm lwsDeps leaderPod ''k1'']"
    by (auto simp: halfAppliedLeader_facts leaderPod_facts scopedTo_def)
  from exclusive_placement_once [of lwsDeps placedLeader "''k2''" "''k2''"]
  have 3: "applyExclusivePlacement lwsDeps placedLeader ''k2'' = (None, placedLeader)"
    by (auto simp: placedLeader_facts leaderPod_facts scopedTo_def)
  from exclusive_placement_once [of lwsDeps unannotatedLeader "''k1''" "''k1''"]
  have 4: "applyExclusivePlacement lwsDeps unannotatedLeader ''k1'' = (None, unannotatedLeader)"
    by (auto simp: unannotatedLeader_facts)
  from 1 2 3 4 show ?thesis by blast
qed

text \<open>What the two appended terms select, by the meaning of label selectors.\<close>

lemma affinityTerm_selects:
  "termSelects (affinityTerm d pod k) labels = (labels (GroupUniqueHashLabelKey d) = Some k)"
  by (auto simp: termSelects_def affinityTerm_def selectorMatches_def requirementMatches_def
      split: option.splits)

lemma antiAffinityTerm_selects:
  "termSelects (antiAffinityTerm d pod k) labels
     = (\<exists>v. labels (GroupUniqueHashLabelKey d) = Some v \<and> v \<noteq> k)"
  by (auto simp: termSelects_def antiAffinityTerm_def selectorMatches_def requirementMatches_def
      split: option.splits)

text \<open>
  C2. For every pod and group unique key, \<open>SetExclusiveAffinities\<close> appends exactly one
  required pod affinity term and exactly one required pod anti-affinity term to those of
  the pod, both scoped to the topology key of the pod's exclusive-placement annotation.
  The affinity term selects the pods whose group-key label is the group unique key; the
  anti-affinity term selects the pods that have a group-key label with another value. So
  for distinct keys \<open>A\<close> and \<open>B\<close>, the anti-affinity term for \<open>A\<close> does not select a
  pod labelled \<open>A\<close> and selects a pod labelled \<open>B\<close>, and the term for \<open>B\<close> selects a
  pod labelled \<open>A\<close>.
\<close>

theorem exclusive_terms_appended:
  "(\<exists>pod'. SetExclusiveAffinities d pod groupUniqueKey = Some pod'
      \<and> requiredAffinityTerms pod' = requiredAffinityTerms pod @ [affinityTerm d pod groupUniqueKey]
      \<and> requiredAntiAffinityTerms pod' = requiredAntiAffinityTerms pod @ [antiAffinityTerm d pod groupUniqueKey])
   \<and> TopologyKey (affinityTerm d pod groupUniqueKey) = index (Annotations pod) (ExclusiveKeyAnnotationKey d)
   \<and> TopologyKey (antiAffinityTerm d pod groupUniqueKey) = index (Annotations pod) (ExclusiveKeyAnnotationKey d)
   \<and> termSelects (affinityTerm d pod groupUniqueKey) labels
        = (labels (GroupUniqueHashLabelKey d) = Some groupUniqueKey)
   \<and> termSelects (antiAffinityTerm d pod groupUniqueKey) labels
        = (\<exists>v. labels (GroupUniqueHashLabelKey d) = Some v \<and> v \<noteq> groupUniqueKey)
   \<and> (A \<noteq> B \<and> labelsA (GroupUniqueHashLabelKey d) = Some A \<and> labelsB (GroupUniqueHashLabelKey d) = Some B
        \<longrightarrow> \<not> termSelects (antiAffinityTerm d pod A) labelsA
          \<and> termSelects (antiAffinityTerm d pod A) labelsB
          \<and> termSelects (antiAffinityTerm d pod B) labelsA)"
  using SetExclusiveAffinities_terms [of d pod groupUniqueKey]
  by (auto simp: affinityTerm_selects antiAffinityTerm_selects)

theorem exclusive_terms_appended_witness:
  "\<not> termSelects (antiAffinityTerm lwsDeps leaderPod ''k1'') [GroupUniqueHashLabelKey lwsDeps \<mapsto> ''k1'']
   \<and> termSelects (antiAffinityTerm lwsDeps leaderPod ''k1'') [GroupUniqueHashLabelKey lwsDeps \<mapsto> ''k2'']
   \<and> termSelects (antiAffinityTerm lwsDeps leaderPod ''k2'') [GroupUniqueHashLabelKey lwsDeps \<mapsto> ''k1'']"
  using exclusive_terms_appended [of lwsDeps leaderPod "''k1''" "[GroupUniqueHashLabelKey lwsDeps \<mapsto> ''k1'']"
      "''k1''" "''k2''" "[GroupUniqueHashLabelKey lwsDeps \<mapsto> ''k1'']" "[GroupUniqueHashLabelKey lwsDeps \<mapsto> ''k2'']"]
  by simp

text \<open>
  C9. \<open>SetExclusiveAffinities\<close> never dereferences a nil pointer: for every pod it
  returns a pod, whose affinity, pod affinity and pod anti-affinity are all present. Where
  the pod had no affinity, the result has a fresh one that holds only the two new terms;
  where it had an affinity without pod affinity or without pod anti-affinity, the absent
  part is a fresh one that holds only the new term, and what was present is kept, the new
  term appended.
\<close>

theorem absent_affinity_constructed:
  "\<exists>pod' a pa paa.
      SetExclusiveAffinities d pod groupUniqueKey = Some pod'
    \<and> Affinity (Spec pod') = Some a \<and> PodAffinity a = Some pa \<and> PodAntiAffinity a = Some paa
    \<and> (Affinity (Spec pod) = None \<longrightarrow>
          NodeAffinity a = None
        \<and> pa = \<lparr>PodAffinity.RequiredDuringSchedulingIgnoredDuringExecution = [affinityTerm d pod groupUniqueKey],
                 PodAffinity.PreferredDuringSchedulingIgnoredDuringExecution = []\<rparr>
        \<and> paa = \<lparr>PodAntiAffinity.RequiredDuringSchedulingIgnoredDuringExecution = [antiAffinityTerm d pod groupUniqueKey],
                  PodAntiAffinity.PreferredDuringSchedulingIgnoredDuringExecution = []\<rparr>)
    \<and> (\<forall>a0. Affinity (Spec pod) = Some a0 \<longrightarrow>
          NodeAffinity a = NodeAffinity a0
        \<and> (case PodAffinity a0 of
              None \<Rightarrow> pa = \<lparr>PodAffinity.RequiredDuringSchedulingIgnoredDuringExecution = [affinityTerm d pod groupUniqueKey],
                              PodAffinity.PreferredDuringSchedulingIgnoredDuringExecution = []\<rparr>
            | Some pa0 \<Rightarrow> pa = pa0\<lparr>PodAffinity.RequiredDuringSchedulingIgnoredDuringExecution :=
                PodAffinity.RequiredDuringSchedulingIgnoredDuringExecution pa0 @ [affinityTerm d pod groupUniqueKey]\<rparr>)
        \<and> (case PodAntiAffinity a0 of
              None \<Rightarrow> paa = \<lparr>PodAntiAffinity.RequiredDuringSchedulingIgnoredDuringExecution = [antiAffinityTerm d pod groupUniqueKey],
                               PodAntiAffinity.PreferredDuringSchedulingIgnoredDuringExecution = []\<rparr>
            | Some paa0 \<Rightarrow> paa = paa0\<lparr>PodAntiAffinity.RequiredDuringSchedulingIgnoredDuringExecution :=
                PodAntiAffinity.RequiredDuringSchedulingIgnoredDuringExecution paa0 @ [antiAffinityTerm d pod groupUniqueKey]\<rparr>))"
  by (simp add: SetExclusiveAffinities_closed Let_def split: option.splits)

theorem absent_affinity_constructed_witness:
  "(\<exists>pod' a. SetExclusiveAffinities lwsDeps leaderPod ''k1'' = Some pod'
      \<and> Affinity (Spec pod') = Some a
      \<and> NodeAffinity a = None
      \<and> PodAffinity a = Some
           \<lparr>PodAffinity.RequiredDuringSchedulingIgnoredDuringExecution = [affinityTerm lwsDeps leaderPod ''k1''],
            PodAffinity.PreferredDuringSchedulingIgnoredDuringExecution = []\<rparr>
      \<and> PodAntiAffinity a = Some
           \<lparr>PodAntiAffinity.RequiredDuringSchedulingIgnoredDuringExecution = [antiAffinityTerm lwsDeps leaderPod ''k1''],
            PodAntiAffinity.PreferredDuringSchedulingIgnoredDuringExecution = []\<rparr>)
   \<and> (\<exists>pod' a. SetExclusiveAffinities lwsDeps halfPlacedLeader ''k1'' = Some pod'
      \<and> Affinity (Spec pod') = Some a
      \<and> NodeAffinity a = None
      \<and> PodAffinity a = Some
           \<lparr>PodAffinity.RequiredDuringSchedulingIgnoredDuringExecution = [affinityTerm lwsDeps halfPlacedLeader ''k1''],
            PodAffinity.PreferredDuringSchedulingIgnoredDuringExecution = []\<rparr>
      \<and> PodAntiAffinity a = Some
           \<lparr>PodAntiAffinity.RequiredDuringSchedulingIgnoredDuringExecution =
              [hostnameTerm, antiAffinityTerm lwsDeps halfPlacedLeader ''k1''],
            PodAntiAffinity.PreferredDuringSchedulingIgnoredDuringExecution = []\<rparr>)"
proof -
  have n: "Affinity (Spec leaderPod) = None"
    by (simp add: leaderPod_def)
  have h: "Affinity (Spec halfPlacedLeader) = Some halfAffinity"
    by (simp add: halfPlacedLeader_def)
  have f: "NodeAffinity halfAffinity = None" "PodAffinity halfAffinity = None"
    "PodAntiAffinity halfAffinity = Some
        \<lparr>PodAntiAffinity.RequiredDuringSchedulingIgnoredDuringExecution = [hostnameTerm],
         PodAntiAffinity.PreferredDuringSchedulingIgnoredDuringExecution = []\<rparr>"
    by (simp_all add: halfAffinity_def)
  from absent_affinity_constructed [of lwsDeps leaderPod "''k1''"] n
  have 1: "\<exists>pod' a. SetExclusiveAffinities lwsDeps leaderPod ''k1'' = Some pod'
      \<and> Affinity (Spec pod') = Some a
      \<and> NodeAffinity a = None
      \<and> PodAffinity a = Some
           \<lparr>PodAffinity.RequiredDuringSchedulingIgnoredDuringExecution = [affinityTerm lwsDeps leaderPod ''k1''],
            PodAffinity.PreferredDuringSchedulingIgnoredDuringExecution = []\<rparr>
      \<and> PodAntiAffinity a = Some
           \<lparr>PodAntiAffinity.RequiredDuringSchedulingIgnoredDuringExecution = [antiAffinityTerm lwsDeps leaderPod ''k1''],
            PodAntiAffinity.PreferredDuringSchedulingIgnoredDuringExecution = []\<rparr>"
    by auto
  from absent_affinity_constructed [of lwsDeps halfPlacedLeader "''k1''"] h f
  have 2: "\<exists>pod' a. SetExclusiveAffinities lwsDeps halfPlacedLeader ''k1'' = Some pod'
      \<and> Affinity (Spec pod') = Some a
      \<and> NodeAffinity a = None
      \<and> PodAffinity a = Some
           \<lparr>PodAffinity.RequiredDuringSchedulingIgnoredDuringExecution = [affinityTerm lwsDeps halfPlacedLeader ''k1''],
            PodAffinity.PreferredDuringSchedulingIgnoredDuringExecution = []\<rparr>
      \<and> PodAntiAffinity a = Some
           \<lparr>PodAntiAffinity.RequiredDuringSchedulingIgnoredDuringExecution =
              [hostnameTerm, antiAffinityTerm lwsDeps halfPlacedLeader ''k1''],
            PodAntiAffinity.PreferredDuringSchedulingIgnoredDuringExecution = []\<rparr>"
    by auto
  from 1 2 show ?thesis by blast
qed

subsection \<open>The blocks of \<open>Default\<close>\<close>

text \<open>
  What each block of \<open>Default\<close> returns and what it leaves untouched. Exclusive
  placement never fails and writes only the affinity; the leader's blocks fail only on a
  name without ordinal when the group index label is absent, and then before any write.
\<close>

lemma applyExclusivePlacement_frame:
  assumes "applyExclusivePlacement d pod k = (e, pod')"
  shows "e = None \<and> Labels pod' = Labels pod \<and> Annotations pod' = Annotations pod
    \<and> Pod.Name pod' = Pod.Name pod \<and> Namespace pod' = Namespace pod
    \<and> Containers (Spec pod') = Containers (Spec pod)
    \<and> InitContainers (Spec pod') = InitContainers (Spec pod)"
  using assms SetExclusiveAffinities_terms [of d pod k]
  by (auto simp: applyExclusivePlacement_def split: if_splits)

lemma defaultLeader_error:
  "fst (defaultLeader d pod) =
     (if Labels pod (GroupIndexLabelKey d) = None \<and> snd (GetParentNameAndOrdinal d (Pod.Name pod)) = - 1
      then Some (ParsingPodOrdinal (Pod.Name pod)) else None)"
proof (cases "Labels pod (GroupIndexLabelKey d) = None \<and> snd (GetParentNameAndOrdinal d (Pod.Name pod)) = - 1")
  case True
  then show ?thesis
    by (simp add: defaultLeader_def addGroupIndexLabel_def)
next
  case False
  obtain k p where g: "addGroupUniqueKeyLabel d (snd (addGroupIndexLabel d pod)) = (k, p)"
    by (cases "addGroupUniqueKeyLabel d (snd (addGroupIndexLabel d pod))")
  obtain e p' where a: "applyExclusivePlacement d p k = (e, p')"
    by (cases "applyExclusivePlacement d p k")
  from False have "fst (addGroupIndexLabel d pod) = None"
    by (auto simp: addGroupIndexLabel_def Let_def)
  then have "defaultLeader d pod = applyExclusivePlacement d p k"
    using g by (cases "addGroupIndexLabel d pod") (simp add: defaultLeader_def)
  with a applyExclusivePlacement_frame [OF a] False show ?thesis
    by auto
qed

lemma defaultLeader_unparsable:
  assumes "Labels pod (GroupIndexLabelKey d) = None"
    and "snd (GetParentNameAndOrdinal d (Pod.Name pod)) = - 1"
  shows "defaultLeader d pod = (Some (ParsingPodOrdinal (Pod.Name pod)), pod)"
  using assms by (simp add: defaultLeader_def addGroupIndexLabel_def)

lemma defaultLeader_frame:
  assumes "defaultLeader d pod = (e, pod')"
  shows "Annotations pod' = Annotations pod \<and> Pod.Name pod' = Pod.Name pod
    \<and> Namespace pod' = Namespace pod
    \<and> Containers (Spec pod') = Containers (Spec pod)
    \<and> InitContainers (Spec pod') = InitContainers (Spec pod)
    \<and> Labels pod' = (if e = None then leaderLabels d pod else Labels pod)"
proof (cases "Labels pod (GroupIndexLabelKey d) = None \<and> snd (GetParentNameAndOrdinal d (Pod.Name pod)) = - 1")
  case True
  with assms show ?thesis
    by (auto simp: defaultLeader_unparsable)
next
  case False
  define p1 where "p1 = (if Labels pod (GroupIndexLabelKey d) = None
      then pod\<lparr>Labels := (Labels pod)(GroupIndexLabelKey d \<mapsto>
             Sprint (snd (GetParentNameAndOrdinal d (Pod.Name pod))))\<rparr>
      else pod)"
  have p1: "addGroupIndexLabel d pod = (None, p1)"
    using False by (auto simp: addGroupIndexLabel_def Let_def p1_def)
  have f1: "Annotations p1 = Annotations pod" "Pod.Name p1 = Pod.Name pod" "Namespace p1 = Namespace pod"
      "Spec p1 = Spec pod"
    and l1: "Labels p1 = (if Labels pod (GroupIndexLabelKey d) = None
               then (Labels pod)(GroupIndexLabelKey d \<mapsto> Sprint (snd (GetParentNameAndOrdinal d (Pod.Name pod))))
               else Labels pod)"
    by (simp_all add: p1_def)
  obtain k p2 where p2: "addGroupUniqueKeyLabel d p1 = (k, p2)"
    by (cases "addGroupUniqueKeyLabel d p1")
  then have f2: "Annotations p2 = Annotations p1" "Pod.Name p2 = Pod.Name p1" "Namespace p2 = Namespace p1"
      "Spec p2 = Spec p1"
    and l2: "Labels p2 = (if Labels p1 (GroupUniqueHashLabelKey d) = None
         then (Labels p1)(GroupUniqueHashLabelKey d \<mapsto> genGroupUniqueKey d (Namespace p1) (Pod.Name p1))
         else Labels p1)"
    by (auto simp: addGroupUniqueKeyLabel_def Let_def split: if_splits)
  from p1 p2 assms have a: "applyExclusivePlacement d p2 k = (e, pod')"
    by (simp add: defaultLeader_def)
  from applyExclusivePlacement_frame [OF a] f1 f2 l1 l2 show ?thesis
    by (simp add: leaderLabels_def Let_def)
qed

lemma defaultWorker_result:
  "defaultWorker d pod =
     (if snd (GetParentNameAndOrdinal d (Pod.Name pod)) = - 1
      then (Some (ParsingPodOrdinal (Pod.Name pod)), pod)
      else (None, pod\<lparr>Labels := (Labels pod)(WorkerIndexLabelKey d \<mapsto>
              Sprint (snd (GetParentNameAndOrdinal d (Pod.Name pod))))\<rparr>))"
  by (simp add: defaultWorker_def Let_def)

lemma injectEnvVars_frame:
  assumes "variablesOnly d" and "injectEnvVars d pod = (e, pod')"
  shows "Labels pod' = Labels pod \<and> Annotations pod' = Annotations pod
    \<and> Pod.Name pod' = Pod.Name pod \<and> Namespace pod' = Namespace pod
    \<and> Affinity (Spec pod') = Affinity (Spec pod)"
proof -
  have *: ?thesis if "AddTPUVariables d pod n = (e, pod')" for n
  proof -
    obtain cs ics where "snd (AddTPUVariables d pod n)
        = pod\<lparr>Spec := (Spec pod)\<lparr>InitContainers := ics, Containers := cs\<rparr>\<rparr>"
      using assms(1) unfolding variablesOnly_def by blast
    with that have "pod' = pod\<lparr>Spec := (Spec pod)\<lparr>InitContainers := ics, Containers := cs\<rparr>\<rparr>"
      by simp
    then show ?thesis by simp
  qed
  from assms(2) show ?thesis
    by (auto simp: injectEnvVars_def split: if_splits option.splits sum.splits dest: *)
qed

lemma role_frame:
  assumes "(if LeaderPod d pod then defaultLeader d pod else defaultWorker d pod) = (e, p)"
  shows "Annotations p = Annotations pod \<and> Pod.Name p = Pod.Name pod
    \<and> Namespace p = Namespace pod
    \<and> Containers (Spec p) = Containers (Spec pod)
    \<and> InitContainers (Spec p) = InitContainers (Spec pod)
    \<and> e = (if (\<not> LeaderPod d pod \<or> Labels pod (GroupIndexLabelKey d) = None)
               \<and> snd (GetParentNameAndOrdinal d (Pod.Name pod)) = - 1
            then Some (ParsingPodOrdinal (Pod.Name pod)) else None)"
proof (cases "LeaderPod d pod")
  case True
  with assms have l: "defaultLeader d pod = (e, p)" by simp
  from defaultLeader_frame [OF l] defaultLeader_error [of d pod] l True show ?thesis
    by simp
next
  case False
  with assms have "defaultWorker d pod = (e, p)" by simp
  with False show ?thesis
    by (auto simp: defaultWorker_result split: if_splits)
qed

lemma Default_member:
  assumes "Labels pod (SetNameLabelKey d) \<noteq> None"
    and "(if LeaderPod d pod then defaultLeader d pod else defaultWorker d pod) = (e, p)"
  shows "Default d (PodObject pod) =
     (case e of
        Some err \<Rightarrow> (Some err, PodObject p)
      | None \<Rightarrow> (fst (injectEnvVars d p), PodObject (snd (injectEnvVars d p))))"
  using assms by (auto simp: Default_def split: option.splits prod.splits)

subsection \<open>\<open>Default\<close> on the example pods\<close>

lemmas webhook_defs =
  Default_def defaultLeader_def defaultWorker_def addGroupIndexLabel_def addGroupUniqueKeyLabel_def
  applyExclusivePlacement_def injectEnvVars_def genGroupUniqueKey_def index_def Let_def

lemmas helper_defs =
  lwsDeps_def specLeaderPod_def specGetParentNameAndOrdinal_def specPodRequestsTPUs_def
  containerRequestsTPUs_def isDigit_def parseNat_def digitVal_def Sprint_def showNat.simps digitChar_def

lemma lwsDeps_requestsOfContainers: "requestsOfContainers lwsDeps"
  by (simp add: requestsOfContainers_def lwsDeps_def specPodRequestsTPUs_def)

lemma lwsDeps_variablesOnly: "variablesOnly lwsDeps"
  by (auto simp: variablesOnly_def lwsDeps_def specAddTPUVariables_def)

lemma Default_leaderPod: "Default lwsDeps (PodObject leaderPod) = (None, PodObject admittedLeader)"
  by (simp add: leaderPod_def admittedLeader_def webhook_defs helper_defs
      SetExclusiveAffinities_closed exclusiveAffinityApplied_def setAffinity_def
      affinityTerm_def antiAffinityTerm_def)

lemma Default_keyedLeader: "Default lwsDeps (PodObject keyedLeader) = (None, PodObject admittedKeyedLeader)"
  by (simp add: keyedLeader_def admittedKeyedLeader_def webhook_defs helper_defs
      SetExclusiveAffinities_closed exclusiveAffinityApplied_def setAffinity_def
      affinityTerm_def antiAffinityTerm_def)

lemma Default_staleLeader: "Default lwsDeps (PodObject staleLeader) = (None, PodObject staleLeader)"
  by (simp add: staleLeader_def webhook_defs helper_defs)

lemma Default_staleWorker:
  "Default lwsDeps (PodObject staleWorker)
     = (None, PodObject (staleWorker\<lparr>Labels := (Labels staleWorker)(WorkerIndexLabelKey lwsDeps \<mapsto> ''3'')\<rparr>))"
  by (simp add: staleWorker_def webhook_defs helper_defs)

lemma Default_indexedLeader: "fst (Default lwsDeps (PodObject indexedLeader)) = None"
  by (simp add: indexedLeader_def webhook_defs helper_defs)

lemma Default_tpuLeader:
  "Default lwsDeps (PodObject tpuLeader) = (Some (SizeAnnotationMissing ''sample-0''),
     PodObject (tpuLeader\<lparr>Labels := (Labels tpuLeader)
        (GroupIndexLabelKey lwsDeps \<mapsto> ''0'',
         GroupUniqueHashLabelKey lwsDeps \<mapsto> specSha1Hash ''default/sample-0'')\<rparr>))"
  by (simp add: tpuLeader_def tpuContainer_def webhook_defs helper_defs)

lemma defaultLeader_tpuLeader:
  "defaultLeader lwsDeps tpuLeader
     = (None, tpuLeader\<lparr>Labels := (Labels tpuLeader)
          (GroupIndexLabelKey lwsDeps \<mapsto> ''0'',
           GroupUniqueHashLabelKey lwsDeps \<mapsto> specSha1Hash ''default/sample-0'')\<rparr>)"
  by (simp add: tpuLeader_def tpuContainer_def webhook_defs helper_defs)

lemma defaultLeader_cpuLeader:
  "defaultLeader lwsDeps cpuLeader
     = (None, cpuLeader\<lparr>Labels := (Labels cpuLeader)
          (GroupIndexLabelKey lwsDeps \<mapsto> ''0'',
           GroupUniqueHashLabelKey lwsDeps \<mapsto> specSha1Hash ''default/sample-0'')\<rparr>)"
  by (simp add: cpuLeader_def cpuContainer_def webhook_defs helper_defs)

subsection \<open>Names without ordinal\<close>

text \<open>
  C4, as stated, fails: a leader that already carries the group index label is admitted
  whatever its name, since the name is parsed only to write an absent label. The leader
  \<open>indexedLeader\<close> is named \<open>sample-x\<close>, the ordinal of its name is \<open>-1\<close>, and
  \<open>Default\<close> returns no error.
\<close>

theorem unparsable_leader_admitted:
  "Labels indexedLeader (SetNameLabelKey lwsDeps) \<noteq> None
   \<and> LeaderPod lwsDeps indexedLeader
   \<and> snd (GetParentNameAndOrdinal lwsDeps (Pod.Name indexedLeader)) = - 1
   \<and> fst (Default lwsDeps (PodObject indexedLeader)) = None"
  using Default_indexedLeader
  by (simp add: indexedLeader_def helper_defs index_def)

text \<open>
  C4, amended. For a group member whose name has no ordinal (the helper returns \<open>-1\<close>):
  a worker, and a leader without the group index label, are rejected with the error of the
  pod ordinal, and the pod is left exactly as it came: no label is written, no identity
  guessed. A leader that carries the group index label passes its label blocks without
  error, and \<open>Default\<close> returns what the accelerator block returns.
\<close>

theorem unparsable_name_rejected:
  assumes "Labels pod (SetNameLabelKey d) \<noteq> None"
    and "snd (GetParentNameAndOrdinal d (Pod.Name pod)) = - 1"
  shows "(\<not> LeaderPod d pod \<or> Labels pod (GroupIndexLabelKey d) = None \<longrightarrow>
            Default d (PodObject pod) = (Some (ParsingPodOrdinal (Pod.Name pod)), PodObject pod))
       \<and> (LeaderPod d pod \<and> Labels pod (GroupIndexLabelKey d) \<noteq> None \<longrightarrow>
            fst (defaultLeader d pod) = None
          \<and> Default d (PodObject pod) =
              (fst (injectEnvVars d (snd (defaultLeader d pod))),
               PodObject (snd (injectEnvVars d (snd (defaultLeader d pod))))))"
proof (intro conjI impI)
  assume c: "\<not> LeaderPod d pod \<or> Labels pod (GroupIndexLabelKey d) = None"
  have "(if LeaderPod d pod then defaultLeader d pod else defaultWorker d pod)
      = (Some (ParsingPodOrdinal (Pod.Name pod)), pod)"
    using c assms(2) by (auto simp: defaultLeader_unparsable defaultWorker_result)
  from Default_member [OF assms(1) this]
  show "Default d (PodObject pod) = (Some (ParsingPodOrdinal (Pod.Name pod)), PodObject pod)"
    by simp
next
  assume c: "LeaderPod d pod \<and> Labels pod (GroupIndexLabelKey d) \<noteq> None"
  then show n: "fst (defaultLeader d pod) = None"
    by (simp add: defaultLeader_error)
  have "(if LeaderPod d pod then defaultLeader d pod else defaultWorker d pod)
      = (None, snd (defaultLeader d pod))"
    using c n by (simp add: prod_eq_iff)
  from Default_member [OF assms(1) this]
  show "Default d (PodObject pod) =
      (fst (injectEnvVars d (snd (defaultLeader d pod))),
       PodObject (snd (injectEnvVars d (snd (defaultLeader d pod)))))"
    by simp
qed

theorem unparsable_name_rejected_witness:
  "Default lwsDeps (PodObject unparsableWorker)
     = (Some (ParsingPodOrdinal ''sample-0-x''), PodObject unparsableWorker)
   \<and> Default lwsDeps (PodObject unparsableLeader)
     = (Some (ParsingPodOrdinal ''sample-x''), PodObject unparsableLeader)
   \<and> fst (defaultLeader lwsDeps indexedLeader) = None"
proof -
  have w: "Labels unparsableWorker (SetNameLabelKey lwsDeps) \<noteq> None"
    "snd (GetParentNameAndOrdinal lwsDeps (Pod.Name unparsableWorker)) = - 1"
    "\<not> LeaderPod lwsDeps unparsableWorker" "Pod.Name unparsableWorker = ''sample-0-x''"
    by (simp_all add: unparsableWorker_def helper_defs index_def)
  have l: "Labels unparsableLeader (SetNameLabelKey lwsDeps) \<noteq> None"
    "snd (GetParentNameAndOrdinal lwsDeps (Pod.Name unparsableLeader)) = - 1"
    "Labels unparsableLeader (GroupIndexLabelKey lwsDeps) = None" "Pod.Name unparsableLeader = ''sample-x''"
    by (simp_all add: unparsableLeader_def helper_defs index_def)
  have i: "Labels indexedLeader (SetNameLabelKey lwsDeps) \<noteq> None"
    "snd (GetParentNameAndOrdinal lwsDeps (Pod.Name indexedLeader)) = - 1"
    "LeaderPod lwsDeps indexedLeader" "Labels indexedLeader (GroupIndexLabelKey lwsDeps) \<noteq> None"
    by (simp_all add: indexedLeader_def helper_defs index_def)
  from unparsable_name_rejected [OF w(1) w(2)] w(3) w(4)
  have 1: "Default lwsDeps (PodObject unparsableWorker)
     = (Some (ParsingPodOrdinal ''sample-0-x''), PodObject unparsableWorker)"
    by simp
  from unparsable_name_rejected [OF l(1) l(2)] l(3) l(4)
  have 2: "Default lwsDeps (PodObject unparsableLeader)
     = (Some (ParsingPodOrdinal ''sample-x''), PodObject unparsableLeader)"
    by simp
  from unparsable_name_rejected [OF i(1) i(2)] i(3) i(4)
  have 3: "fst (defaultLeader lwsDeps indexedLeader) = None"
    by blast
  from 1 2 3 show ?thesis by blast
qed

subsection \<open>The group size of accelerator pods\<close>

text \<open>
  C5. For a group member whose containers request the accelerator and that has no
  group-size annotation, \<open>Default\<close> returns an error: the error of the pod ordinal when
  the name has no ordinal and is parsed, the error of the missing size annotation
  otherwise; the size is never defaulted. For a group member that does not request the
  accelerator, the last block is a no-op: it returns no error and the pod it was given,
  so \<open>Default\<close> returns what the label blocks return. In both cases the pod that
  \<open>Default\<close> leaves is the pod of the label blocks, whose containers and init containers
  are those of the pod that came: no environment variable is added.
\<close>

theorem missing_size_rejected:
  assumes "Labels pod (SetNameLabelKey d) \<noteq> None"
    and "requestsOfContainers d"
  shows "let r = (if LeaderPod d pod then defaultLeader d pod else defaultWorker d pod);
             unparsed = ((\<not> LeaderPod d pod \<or> Labels pod (GroupIndexLabelKey d) = None)
                          \<and> snd (GetParentNameAndOrdinal d (Pod.Name pod)) = - 1)
         in (PodRequestsTPUs d (Spec pod) \<and> Annotations pod (SizeAnnotationKey d) = None \<longrightarrow>
               Default d (PodObject pod) =
                 (Some (if unparsed then ParsingPodOrdinal (Pod.Name pod)
                        else SizeAnnotationMissing (Pod.Name pod)),
                  PodObject (snd r)))
          \<and> (\<not> PodRequestsTPUs d (Spec pod) \<longrightarrow>
               injectEnvVars d (snd r) = (None, snd r)
             \<and> Default d (PodObject pod) =
                 (if unparsed then Some (ParsingPodOrdinal (Pod.Name pod)) else None,
                  PodObject (snd r)))
          \<and> Containers (Spec (snd r)) = Containers (Spec pod)
          \<and> InitContainers (Spec (snd r)) = InitContainers (Spec pod)"
proof -
  obtain e p where r: "(if LeaderPod d pod then defaultLeader d pod else defaultWorker d pod) = (e, p)"
    by (cases "if LeaderPod d pod then defaultLeader d pod else defaultWorker d pod")
  note f = role_frame [OF r]
  note D = Default_member [OF assms(1) r]
  from f assms(2) have q: "PodRequestsTPUs d (Spec p) = PodRequestsTPUs d (Spec pod)"
    unfolding requestsOfContainers_def by blast
  show ?thesis
  proof (cases e)
    case (Some err)
    with f D q r show ?thesis
      by (auto simp: Let_def injectEnvVars_def split: if_splits)
  next
    case None
    with f D q r show ?thesis
      by (auto simp: Let_def injectEnvVars_def split: if_splits)
  qed
qed

theorem missing_size_rejected_witness:
  "Default lwsDeps (PodObject tpuLeader)
     = (Some (SizeAnnotationMissing ''sample-0''),
        PodObject (tpuLeader\<lparr>Labels := (Labels tpuLeader)
          (GroupIndexLabelKey lwsDeps \<mapsto> ''0'',
           GroupUniqueHashLabelKey lwsDeps \<mapsto> specSha1Hash ''default/sample-0'')\<rparr>))
   \<and> Default lwsDeps (PodObject cpuLeader)
     = (None,
        PodObject (cpuLeader\<lparr>Labels := (Labels cpuLeader)
          (GroupIndexLabelKey lwsDeps \<mapsto> ''0'',
           GroupUniqueHashLabelKey lwsDeps \<mapsto> specSha1Hash ''default/sample-0'')\<rparr>))
   \<and> Containers (Spec cpuLeader) = [cpuContainer]"
proof -
  have t: "Labels tpuLeader (SetNameLabelKey lwsDeps) \<noteq> None"
    "PodRequestsTPUs lwsDeps (Spec tpuLeader)"
    "Annotations tpuLeader (SizeAnnotationKey lwsDeps) = None"
    "snd (GetParentNameAndOrdinal lwsDeps (Pod.Name tpuLeader)) \<noteq> - 1"
    "Pod.Name tpuLeader = ''sample-0''" "LeaderPod lwsDeps tpuLeader"
    by (simp_all add: tpuLeader_def tpuContainer_def helper_defs index_def)
  have c: "Labels cpuLeader (SetNameLabelKey lwsDeps) \<noteq> None"
    "\<not> PodRequestsTPUs lwsDeps (Spec cpuLeader)"
    "snd (GetParentNameAndOrdinal lwsDeps (Pod.Name cpuLeader)) \<noteq> - 1"
    "LeaderPod lwsDeps cpuLeader" "Containers (Spec cpuLeader) = [cpuContainer]"
    by (simp_all add: cpuLeader_def cpuContainer_def helper_defs index_def)
  from missing_size_rejected [OF t(1) lwsDeps_requestsOfContainers] t(2-6)
  have 1: "Default lwsDeps (PodObject tpuLeader)
     = (Some (SizeAnnotationMissing ''sample-0''),
        PodObject (tpuLeader\<lparr>Labels := (Labels tpuLeader)
          (GroupIndexLabelKey lwsDeps \<mapsto> ''0'',
           GroupUniqueHashLabelKey lwsDeps \<mapsto> specSha1Hash ''default/sample-0'')\<rparr>))"
    by (simp add: Let_def defaultLeader_tpuLeader)
  from missing_size_rejected [OF c(1) lwsDeps_requestsOfContainers] c(2-4)
  have 2: "Default lwsDeps (PodObject cpuLeader)
     = (None,
        PodObject (cpuLeader\<lparr>Labels := (Labels cpuLeader)
          (GroupIndexLabelKey lwsDeps \<mapsto> ''0'',
           GroupUniqueHashLabelKey lwsDeps \<mapsto> specSha1Hash ''default/sample-0'')\<rparr>))"
    by (simp add: Let_def defaultLeader_cpuLeader)
  from 1 2 c(5) show ?thesis by blast
qed

subsection \<open>The group unique key\<close>

text \<open>
  The key the leader passes to exclusive placement: the label it came with, or the
  generated key.
\<close>

lemma same_spec_and_annotations:
  assumes "Spec p = Spec q" and "Annotations p = Annotations q"
  shows "requiredAffinityTerms p = requiredAffinityTerms q"
    and "requiredAntiAffinityTerms p = requiredAntiAffinityTerms q"
    and "exclusiveAffinityApplied d p = exclusiveAffinityApplied d q"
    and "affinityTerm d p k = affinityTerm d q k"
    and "antiAffinityTerm d p k = antiAffinityTerm d q k"
  using assms
  by (simp_all add: requiredAffinityTerms_def requiredAntiAffinityTerms_def
      exclusiveAffinityApplied_iff affinityTerm_def antiAffinityTerm_def)

lemma defaultLeader_placement:
  assumes "GroupIndexLabelKey d \<noteq> GroupUniqueHashLabelKey d"
    and "\<not> (Labels pod (GroupIndexLabelKey d) = None \<and> snd (GetParentNameAndOrdinal d (Pod.Name pod)) = - 1)"
  shows "\<exists>p2. Spec p2 = Spec pod \<and> Annotations p2 = Annotations pod
      \<and> defaultLeader d pod = applyExclusivePlacement d p2
           (case Labels pod (GroupUniqueHashLabelKey d) of
              None \<Rightarrow> genGroupUniqueKey d (Namespace pod) (Pod.Name pod)
            | Some v \<Rightarrow> v)"
proof -
  define p1 where "p1 = (if Labels pod (GroupIndexLabelKey d) = None
      then pod\<lparr>Labels := (Labels pod)(GroupIndexLabelKey d \<mapsto>
             Sprint (snd (GetParentNameAndOrdinal d (Pod.Name pod))))\<rparr>
      else pod)"
  have p1: "addGroupIndexLabel d pod = (None, p1)"
    using assms(2) by (auto simp: addGroupIndexLabel_def Let_def p1_def)
  have f1: "Annotations p1 = Annotations pod" "Pod.Name p1 = Pod.Name pod" "Namespace p1 = Namespace pod"
      "Spec p1 = Spec pod"
    and l1: "Labels p1 (GroupUniqueHashLabelKey d) = Labels pod (GroupUniqueHashLabelKey d)"
    using assms(1) by (simp_all add: p1_def)
  obtain k p2 where p2: "addGroupUniqueKeyLabel d p1 = (k, p2)"
    by (cases "addGroupUniqueKeyLabel d p1")
  then have f2: "Annotations p2 = Annotations p1" "Spec p2 = Spec p1"
    and k: "k = (case Labels p1 (GroupUniqueHashLabelKey d) of
              None \<Rightarrow> genGroupUniqueKey d (Namespace p1) (Pod.Name p1)
            | Some v \<Rightarrow> v)"
    by (auto simp: addGroupUniqueKeyLabel_def Let_def index_def split: if_splits)
  from p1 p2 have "defaultLeader d pod = applyExclusivePlacement d p2 k"
    by (simp add: defaultLeader_def)
  moreover have "k = (case Labels pod (GroupUniqueHashLabelKey d) of
              None \<Rightarrow> genGroupUniqueKey d (Namespace pod) (Pod.Name pod)
            | Some v \<Rightarrow> v)"
    using k l1 f1 by (simp split: option.splits)
  moreover have "Spec p2 = Spec pod" "Annotations p2 = Annotations pod"
    using f1 f2 by simp_all
  ultimately show ?thesis
    by blast
qed

text \<open>
  C7. For a leader that \<open>Default\<close> admits, the group unique key is the hash of
  \<open>namespace/name\<close>, and it is computed and stored in the group-key label only when the
  label is absent: the key is the value of the label the pod came with if it had one, and
  the hash otherwise. The label of the admitted pod is that key, and the terms of
  exclusive placement, when they are appended, are those for that key: a value that is
  present is reused, neither recomputed nor overwritten. When they are not appended, the
  required terms are those of the pod that came.
\<close>

theorem group_key_computed_once:
  assumes "Labels pod (SetNameLabelKey d) \<noteq> None"
    and "LeaderPod d pod"
    and "variablesOnly d"
    and "GroupIndexLabelKey d \<noteq> GroupUniqueHashLabelKey d"
    and "Default d (PodObject pod) = (None, PodObject pod')"
  shows "let groupUniqueKey =
               (case Labels pod (GroupUniqueHashLabelKey d) of
                  None \<Rightarrow> Sha1Hash d (Namespace pod @ ''/'' @ Pod.Name pod)
                | Some v \<Rightarrow> v)
         in genGroupUniqueKey d (Namespace pod) (Pod.Name pod)
              = Sha1Hash d (Namespace pod @ ''/'' @ Pod.Name pod)
          \<and> Labels pod' (GroupUniqueHashLabelKey d) = Some groupUniqueKey
          \<and> (if Annotations pod (ExclusiveKeyAnnotationKey d) \<noteq> None \<and> \<not> exclusiveAffinityApplied d pod
              then requiredAffinityTerms pod'
                     = requiredAffinityTerms pod @ [affinityTerm d pod groupUniqueKey]
                 \<and> requiredAntiAffinityTerms pod'
                     = requiredAntiAffinityTerms pod @ [antiAffinityTerm d pod groupUniqueKey]
              else requiredAffinityTerms pod' = requiredAffinityTerms pod
                 \<and> requiredAntiAffinityTerms pod' = requiredAntiAffinityTerms pod)"
proof -
  define key where "key = (case Labels pod (GroupUniqueHashLabelKey d) of
                  None \<Rightarrow> genGroupUniqueKey d (Namespace pod) (Pod.Name pod)
                | Some v \<Rightarrow> v)"
  obtain e p where l: "defaultLeader d pod = (e, p)"
    by (cases "defaultLeader d pod")
  with assms(2) have r: "(if LeaderPod d pod then defaultLeader d pod else defaultWorker d pod) = (e, p)"
    by simp
  from Default_member [OF assms(1) r] assms(5)
  have e: "e = None" and i: "injectEnvVars d p = (None, pod')"
    by (auto split: option.splits simp: prod_eq_iff)
  note fi = injectEnvVars_frame [OF assms(3) i]
  from fi defaultLeader_frame [OF l] e
  have "Labels pod' = leaderLabels d pod" by simp
  with assms(4) have lab: "Labels pod' (GroupUniqueHashLabelKey d) = Some key"
    by (auto simp: leaderLabels_def key_def Let_def split: option.splits)
  from defaultLeader_error [of d pod] l e
  have n: "\<not> (Labels pod (GroupIndexLabelKey d) = None \<and> snd (GetParentNameAndOrdinal d (Pod.Name pod)) = - 1)"
    by (auto split: if_splits)
  from defaultLeader_placement [OF assms(4) n] l e
  obtain p2 where s2: "Spec p2 = Spec pod" "Annotations p2 = Annotations pod"
    and a: "applyExclusivePlacement d p2 key = (None, p)"
    unfolding key_def by auto
  note eq = same_spec_and_annotations [OF s2]
  from applyExclusivePlacement_result [of d p2 key key] a
  have t: "if Annotations pod (ExclusiveKeyAnnotationKey d) \<noteq> None \<and> \<not> exclusiveAffinityApplied d pod
      then requiredAffinityTerms p = requiredAffinityTerms pod @ [affinityTerm d pod key]
         \<and> requiredAntiAffinityTerms p = requiredAntiAffinityTerms pod @ [antiAffinityTerm d pod key]
      else p = p2"
    using eq(1,2) eq(4,5) [of d key] s2(2) exclusiveAffinityApplied_iff [of d pod]
    by (auto split: if_splits)
  from fi have "requiredAffinityTerms pod' = requiredAffinityTerms p"
    "requiredAntiAffinityTerms pod' = requiredAntiAffinityTerms p"
    by (simp_all add: requiredAffinityTerms_def requiredAntiAffinityTerms_def)
  with t eq(1,2) have terms: "if Annotations pod (ExclusiveKeyAnnotationKey d) \<noteq> None \<and> \<not> exclusiveAffinityApplied d pod
      then requiredAffinityTerms pod' = requiredAffinityTerms pod @ [affinityTerm d pod key]
         \<and> requiredAntiAffinityTerms pod' = requiredAntiAffinityTerms pod @ [antiAffinityTerm d pod key]
      else requiredAffinityTerms pod' = requiredAffinityTerms pod
         \<and> requiredAntiAffinityTerms pod' = requiredAntiAffinityTerms pod"
    by (auto split: if_splits)
  have g: "genGroupUniqueKey d (Namespace pod) (Pod.Name pod)
      = Sha1Hash d (Namespace pod @ ''/'' @ Pod.Name pod)"
    by (simp add: genGroupUniqueKey_def)
  from lab terms g show ?thesis
    unfolding Let_def key_def g by simp
qed

theorem group_key_computed_once_witness:
  "Labels leaderPod (GroupUniqueHashLabelKey lwsDeps) = None
   \<and> Labels admittedLeader (GroupUniqueHashLabelKey lwsDeps) = Some (Sha1Hash lwsDeps ''default/sample-0'')
   \<and> requiredAffinityTerms admittedLeader
       = [affinityTerm lwsDeps leaderPod (Sha1Hash lwsDeps ''default/sample-0'')]
   \<and> requiredAntiAffinityTerms admittedLeader
       = [antiAffinityTerm lwsDeps leaderPod (Sha1Hash lwsDeps ''default/sample-0'')]
   \<and> Labels keyedLeader (GroupUniqueHashLabelKey lwsDeps) = Some ''1234''
   \<and> Labels admittedKeyedLeader (GroupUniqueHashLabelKey lwsDeps) = Some ''1234''
   \<and> requiredAffinityTerms admittedKeyedLeader = [affinityTerm lwsDeps keyedLeader ''1234'']
   \<and> requiredAntiAffinityTerms admittedKeyedLeader = [antiAffinityTerm lwsDeps keyedLeader ''1234'']"
proof -
  have k: "GroupIndexLabelKey lwsDeps \<noteq> GroupUniqueHashLabelKey lwsDeps"
    by (simp add: lwsDeps_def)
  have p: "Labels leaderPod (SetNameLabelKey lwsDeps) \<noteq> None" "LeaderPod lwsDeps leaderPod"
    "Labels leaderPod (GroupUniqueHashLabelKey lwsDeps) = None"
    "Namespace leaderPod = ''default''" "Pod.Name leaderPod = ''sample-0''"
    by (simp_all add: leaderPod_def helper_defs index_def)
  have pa: "\<not> exclusiveAffinityApplied lwsDeps leaderPod"
    by (simp add: exclusiveAffinityApplied_iff leaderPod_facts scopedTo_def)
  have q: "Labels keyedLeader (SetNameLabelKey lwsDeps) \<noteq> None" "LeaderPod lwsDeps keyedLeader"
    "Labels keyedLeader (GroupUniqueHashLabelKey lwsDeps) = Some ''1234''"
    "Annotations keyedLeader (ExclusiveKeyAnnotationKey lwsDeps) \<noteq> None"
    "requiredAffinityTerms keyedLeader = []" "requiredAntiAffinityTerms keyedLeader = []"
    by (simp_all add: keyedLeader_def helper_defs index_def requiredAffinityTerms_def
        requiredAntiAffinityTerms_def)
  have qa: "\<not> exclusiveAffinityApplied lwsDeps keyedLeader"
    by (simp add: exclusiveAffinityApplied_iff q scopedTo_def)
  from group_key_computed_once [OF p(1) p(2) lwsDeps_variablesOnly k Default_leaderPod]
  have 1: "Labels admittedLeader (GroupUniqueHashLabelKey lwsDeps) = Some (Sha1Hash lwsDeps ''default/sample-0'')
   \<and> requiredAffinityTerms admittedLeader
       = [affinityTerm lwsDeps leaderPod (Sha1Hash lwsDeps ''default/sample-0'')]
   \<and> requiredAntiAffinityTerms admittedLeader
       = [antiAffinityTerm lwsDeps leaderPod (Sha1Hash lwsDeps ''default/sample-0'')]"
    using p(3-5) pa leaderPod_facts by (simp add: Let_def)
  from group_key_computed_once [OF q(1) q(2) lwsDeps_variablesOnly k Default_keyedLeader]
  have 2: "Labels admittedKeyedLeader (GroupUniqueHashLabelKey lwsDeps) = Some ''1234''
   \<and> requiredAffinityTerms admittedKeyedLeader = [affinityTerm lwsDeps keyedLeader ''1234'']
   \<and> requiredAntiAffinityTerms admittedKeyedLeader = [antiAffinityTerm lwsDeps keyedLeader ''1234'']"
    using q(3-6) qa by (simp add: Let_def)
  from 1 2 p(3) q(3) show ?thesis by blast
qed

subsection \<open>Labels that are present\<close>

text \<open>
  What \<open>Default\<close> keeps: on a leader no label that is present is overwritten (the group
  index and the group unique key are written only when absent, the worker index never);
  on a worker every label but the worker index is left as it was.
\<close>

lemma present_labels_kept:
  assumes "Labels pod (SetNameLabelKey d) \<noteq> None"
    and "variablesOnly d"
    and "Default d (PodObject pod) = (err, PodObject pod')"
  shows "(LeaderPod d pod \<and> Labels pod k = Some v \<longrightarrow> Labels pod' k = Some v)
       \<and> (\<not> LeaderPod d pod \<and> k \<noteq> WorkerIndexLabelKey d \<longrightarrow> Labels pod' k = Labels pod k)"
proof -
  obtain e p where r: "(if LeaderPod d pod then defaultLeader d pod else defaultWorker d pod) = (e, p)"
    by (cases "if LeaderPod d pod then defaultLeader d pod else defaultWorker d pod")
  have lp: "Labels pod' = Labels p"
  proof (cases e)
    case None
    with Default_member [OF assms(1) r] assms(3)
    have "injectEnvVars d p = (err, pod')" by (simp add: prod_eq_iff)
    from injectEnvVars_frame [OF assms(2) this] show ?thesis by simp
  next
    case (Some a)
    with Default_member [OF assms(1) r] assms(3) show ?thesis by simp
  qed
  show ?thesis
  proof (cases "LeaderPod d pod")
    case True
    with r have "defaultLeader d pod = (e, p)" by simp
    from defaultLeader_frame [OF this] lp True show ?thesis
      by (auto simp: leaderLabels_def Let_def split: if_splits)
  next
    case False
    with r have "defaultWorker d pod = (e, p)" by simp
    with lp False show ?thesis
      by (auto simp: defaultWorker_result split: if_splits)
  qed
qed

text \<open>
  C8. The code breaks it for the worker index of a worker. The worker \<open>staleWorker\<close>,
  named \<open>sample-0-3\<close>, comes with the worker index label \<open>7\<close>, and \<open>Default\<close> admits
  it with the label \<open>3\<close>: the worker's branch writes the label from the ordinal of the
  name without looking for it. The leader's branch does look: the leader \<open>staleLeader\<close>,
  named \<open>sample-3\<close>, comes with the group index label \<open>7\<close> and keeps it.
\<close>

theorem worker_index_overwritten:
  "Labels staleWorker (SetNameLabelKey lwsDeps) \<noteq> None
   \<and> \<not> LeaderPod lwsDeps staleWorker
   \<and> Labels staleWorker (WorkerIndexLabelKey lwsDeps) = Some ''7''
   \<and> Default lwsDeps (PodObject staleWorker)
       = (None, PodObject (staleWorker\<lparr>Labels := (Labels staleWorker)(WorkerIndexLabelKey lwsDeps \<mapsto> ''3'')\<rparr>))
   \<and> Labels (staleWorker\<lparr>Labels := (Labels staleWorker)(WorkerIndexLabelKey lwsDeps \<mapsto> ''3'')\<rparr>)
        (WorkerIndexLabelKey lwsDeps) = Some ''3''
   \<and> LeaderPod lwsDeps staleLeader
   \<and> snd (GetParentNameAndOrdinal lwsDeps (Pod.Name staleLeader)) = 3
   \<and> Labels staleLeader (GroupIndexLabelKey lwsDeps) = Some ''7''
   \<and> Default lwsDeps (PodObject staleLeader) = (None, PodObject staleLeader)"
  using Default_staleWorker Default_staleLeader
  by (simp add: staleWorker_def staleLeader_def helper_defs index_def)

subsection \<open>The ordinal of a pod name\<close>

text \<open>Decimal digits: printing a number and reading it back.\<close>

lemma digit_table:
  "list_all (\<lambda>n. digitVal (digitChar n) = n \<and> isDigit (digitChar n)) [0..<10]"
  by (simp add: upt_rec digitVal_def digitChar_def isDigit_def)

lemma digitChar_props:
  assumes "n < 10"
  shows "digitVal (digitChar n) = n" and "isDigit (digitChar n)"
  using digit_table assms by (simp_all add: list_all_iff)

lemma showNat_digits: "showNat n \<noteq> [] \<and> list_all isDigit (showNat n)"
proof (induction n rule: showNat.induct)
  case (1 n)
  show ?case
  proof (cases "n < 10")
    case True
    then show ?thesis
      by (simp add: showNat.simps [of n] digitChar_props)
  next
    case False
    with 1 show ?thesis
      by (simp add: showNat.simps [of n] digitChar_props)
  qed
qed

lemma parseNat_snoc: "parseNat (ds @ [c]) = 10 * parseNat ds + digitVal c"
  by (simp add: parseNat_def)

lemma parseNat_showNat: "parseNat (showNat n) = n"
proof (induction n rule: showNat.induct)
  case (1 n)
  show ?case
  proof (cases "n < 10")
    case True
    then show ?thesis
      by (simp add: showNat.simps [of n] parseNat_def digitChar_props)
  next
    case False
    with 1 have "parseNat (showNat (n div 10)) = n div 10" by simp
    with False show ?thesis
      by (simp add: showNat.simps [of n] parseNat_snoc digitChar_props)
  qed
qed

lemma isDigit_not_dash:
  assumes "list_all isDigit ds"
  shows "CHR ''-'' \<notin> set ds"
proof -
  have "\<not> isDigit CHR ''-''"
    by (simp add: isDigit_def)
  with assms show ?thesis
    unfolding list_all_iff by blast
qed

lemma split_at_last_dash:
  assumes "CHR ''-'' \<notin> set suffix"
  shows "takeWhile (\<lambda>c. c \<noteq> CHR ''-'') (rev (parent @ ''-'' @ suffix)) = rev suffix"
    and "dropWhile (\<lambda>c. c \<noteq> CHR ''-'') (rev (parent @ ''-'' @ suffix)) = CHR ''-'' # rev parent"
proof -
  have r: "rev (parent @ ''-'' @ suffix) = rev suffix @ CHR ''-'' # rev parent"
    by simp
  have a: "x \<noteq> CHR ''-''" if "x \<in> set (rev suffix)" for x
    using assms that by auto
  have "takeWhile (\<lambda>c. c \<noteq> CHR ''-'') (rev suffix @ CHR ''-'' # rev parent)
      = rev suffix @ takeWhile (\<lambda>c. c \<noteq> CHR ''-'') (CHR ''-'' # rev parent)"
    by (rule takeWhile_append2) (rule a)
  then show "takeWhile (\<lambda>c. c \<noteq> CHR ''-'') (rev (parent @ ''-'' @ suffix)) = rev suffix"
    unfolding r by simp
  have "dropWhile (\<lambda>c. c \<noteq> CHR ''-'') (rev suffix @ CHR ''-'' # rev parent)
      = dropWhile (\<lambda>c. c \<noteq> CHR ''-'') (CHR ''-'' # rev parent)"
    by (rule dropWhile_append2) (rule a)
  then show "dropWhile (\<lambda>c. c \<noteq> CHR ''-'') (rev (parent @ ''-'' @ suffix)) = CHR ''-'' # rev parent"
    unfolding r by simp
qed

lemma parsed_suffix:
  assumes "suffix \<noteq> []" and "list_all isDigit suffix"
  shows "specGetParentNameAndOrdinal (parent @ ''-'' @ suffix) = (parent, int (parseNat suffix))"
proof -
  note s = split_at_last_dash [OF isDigit_not_dash [OF assms(2)], of parent]
  show ?thesis
    unfolding specGetParentNameAndOrdinal_def Let_def s using assms by simp
qed

lemma unparsed_suffix:
  assumes "CHR ''-'' \<notin> set suffix" and "suffix = [] \<or> \<not> list_all isDigit suffix"
  shows "specGetParentNameAndOrdinal (parent @ ''-'' @ suffix) = ([], - 1)"
proof -
  note s = split_at_last_dash [OF assms(1), of parent]
  show ?thesis
    unfolding specGetParentNameAndOrdinal_def Let_def s using assms(2) by auto
qed

lemma no_dash:
  assumes "CHR ''-'' \<notin> set podName"
  shows "specGetParentNameAndOrdinal podName = ([], - 1)"
proof -
  have "dropWhile (\<lambda>c. c \<noteq> CHR ''-'') (rev podName) = []"
    using assms by auto
  then show ?thesis
    unfolding specGetParentNameAndOrdinal_def Let_def by simp
qed

text \<open>
  C6. For a pod name \<open><parent>-<k>\<close>, with \<open>k\<close> a natural number in decimal, the
  parent is \<open><parent>\<close> and the ordinal is \<open>k\<close>; more generally, for a suffix of one
  or more decimal digits the ordinal is the number they denote. For a name whose suffix
  after the last dash is empty or has a character that is not a digit, and for a name
  without a dash, the result is the failure: the ordinal \<open>-1\<close>.
\<close>

theorem ordinal_of_pod_name:
  "specGetParentNameAndOrdinal (parent @ ''-'' @ showNat k) = (parent, int k)
   \<and> (suffix \<noteq> [] \<and> list_all isDigit suffix \<longrightarrow>
        specGetParentNameAndOrdinal (parent @ ''-'' @ suffix) = (parent, int (parseNat suffix)))
   \<and> (CHR ''-'' \<notin> set suffix \<and> (suffix = [] \<or> \<not> list_all isDigit suffix) \<longrightarrow>
        specGetParentNameAndOrdinal (parent @ ''-'' @ suffix) = ([], - 1))
   \<and> (CHR ''-'' \<notin> set podName \<longrightarrow> specGetParentNameAndOrdinal podName = ([], - 1))"
proof -
  have "specGetParentNameAndOrdinal (parent @ ''-'' @ showNat k) = (parent, int k)"
    using parsed_suffix [of "showNat k" parent] showNat_digits [of k]
    by (simp add: parseNat_showNat)
  then show ?thesis
    using parsed_suffix [of suffix parent] unparsed_suffix [of suffix parent] no_dash [of podName]
    by blast
qed

theorem ordinal_of_pod_name_witness:
  "specGetParentNameAndOrdinal (''sample-0'' @ ''-'' @ ''007'') = (''sample-0'', 7)
   \<and> specGetParentNameAndOrdinal (''sample-0'' @ ''-'' @ ''x'') = ([], - 1)
   \<and> specGetParentNameAndOrdinal (''sample-0'' @ ''-'' @ []) = ([], - 1)
   \<and> specGetParentNameAndOrdinal ''sample'' = ([], - 1)"
proof -
  have d: "''007'' \<noteq> [] \<and> list_all isDigit ''007''" "parseNat ''007'' = 7"
    by (simp_all add: isDigit_def parseNat_def digitVal_def)
  have x: "CHR ''-'' \<notin> set ''x'' \<and> (''x'' = [] \<or> \<not> list_all isDigit ''x'')"
    by (simp add: isDigit_def)
  have e: "CHR ''-'' \<notin> set [] \<and> ([] = [] \<or> \<not> list_all isDigit [])"
    by simp
  have n: "CHR ''-'' \<notin> set ''sample''"
    by simp
  from ordinal_of_pod_name [of "''sample-0''" 0 "''007''" "''sample''"] d
  have 1: "specGetParentNameAndOrdinal (''sample-0'' @ ''-'' @ ''007'') = (''sample-0'', 7)"
    by simp
  from ordinal_of_pod_name [of "''sample-0''" 0 "''x''" "''sample''"] x n
  have 2: "specGetParentNameAndOrdinal (''sample-0'' @ ''-'' @ ''x'') = ([], - 1)"
    and 4: "specGetParentNameAndOrdinal ''sample'' = ([], - 1)"
    by blast+
  from ordinal_of_pod_name [of "''sample-0''" 0 "[]" "''sample''"] e
  have 3: "specGetParentNameAndOrdinal (''sample-0'' @ ''-'' @ []) = ([], - 1)"
    by blast
  from 1 2 3 4 show ?thesis by blast
qed

end
